theory Spec2Isabelle
  imports Main
begin

section \<open>Errors and results\<close>

text \<open>
  The three classes of exception that the federation code throws. Each carries its
  message. A method that can throw returns \<open>error + 'a\<close> (\<open>Inl\<close> the exception)
  together with the state it leaves behind: a JavaScript exception does not undo the
  mutations made before it was thrown.
\<close>

datatype error = RouterError string | TypeError string | Error string

fun is_RouterError :: "error + 'a \<Rightarrow> bool" where
  "is_RouterError (Inl (RouterError _)) = True"
| "is_RouterError _ = False"

fun is_TypeError :: "error + 'a \<Rightarrow> bool" where
  "is_TypeError (Inl (TypeError _)) = True"
| "is_TypeError _ = False"

section \<open>Router\<close>

text \<open>
  \<open>middleware.ts\<close> imports the class \<open>Router\<close> from \<open>src/federation/router.ts\<close>,
  which is not among the sources. The model of the router follows its contract in
  section 4.1 of the spec. The URI-template syntax is a parameter of the model:
  \<open>tparse\<close> reads a pattern and returns its variable names, or the message of the
  routing error when the pattern is invalid; \<open>tmatch\<close> matches a path against a pattern
  and returns the values of the variables.
\<close>

type_synonym template_reader = "string \<Rightarrow> string + string list"
type_synonym template_matcher = "string \<Rightarrow> string \<Rightarrow> (string \<rightharpoonup> string) option"

text \<open>Modelled from the spec: the state of a \<open>Router\<close> (\<open>router.ts\<close> is missing), the
  patterns registered, each under its role name, in the order of registration.\<close>

record Router =
  routes :: "(string \<times> string) list"

text \<open>Modelled from the spec: the result of \<open>Router.route\<close> (\<open>router.ts\<close> is missing),
  ``role and values: mapping variable to string''.\<close>

record RouterRoute =
  name :: string
  "values" :: "string \<rightharpoonup> string"

text \<open>Modelled from the spec: \<open>new Router()\<close> (\<open>router.ts\<close> is missing), a router
  without routes.\<close>

definition Router_new :: Router where
  "Router_new = \<lparr>routes = []\<rparr>"

text \<open>Modelled from the spec: \<open>Router.has\<close> (\<open>router.ts\<close> is missing),
  ``\<open>has(role) -> bool\<close>'': whether a pattern is registered under the role.\<close>

definition Router_has :: "string \<Rightarrow> Router \<Rightarrow> bool" where
  "Router_has nm r = (nm \<in> set (map snd (routes r)))"

text \<open>Modelled from the spec: \<open>Router.add\<close> (\<open>router.ts\<close> is missing),
  ``\<open>add(pattern, role) -> set of variable names\<close> registers a URI-template pattern
  under a role name; fails with a \<open>RoutingError\<close> if the pattern is syntactically
  invalid''. A failed call registers nothing.\<close>

definition Router_add ::
  "template_reader \<Rightarrow> string \<Rightarrow> string \<Rightarrow> Router \<Rightarrow> (error + string set) \<times> Router" where
  "Router_add tparse template nm r =
     (case tparse template of
        Inl msg \<Rightarrow> (Inl (RouterError msg), r)
      | Inr vs \<Rightarrow> (Inr (set vs), r\<lparr>routes := routes r @ [(template, nm)]\<rparr>))"

text \<open>Modelled from the spec: the search of \<open>Router.route\<close> (\<open>router.ts\<close> is
  missing) through the registered patterns, where ``first match wins''.\<close>

fun route_first :: "template_matcher \<Rightarrow> string \<Rightarrow> (string \<times> string) list \<Rightarrow> RouterRoute option" where
  "route_first tmatch path [] = None"
| "route_first tmatch path ((template, nm) # rs) =
     (case tmatch template path of
        Some vals \<Rightarrow> Some \<lparr>name = nm, values = vals\<rparr>
      | None \<Rightarrow> route_first tmatch path rs)"

text \<open>Modelled from the spec: \<open>Router.route\<close> (\<open>router.ts\<close> is missing),
  ``\<open>route(path) -> {role, values} | none\<close>''.\<close>

definition Router_route :: "template_matcher \<Rightarrow> string \<Rightarrow> Router \<Rightarrow> RouterRoute option" where
  "Router_route tmatch path r = route_first tmatch path (routes r)"

section \<open>Federation: the dispatcher registry of middleware.ts\<close>

text \<open>
  Callbacks (dispatchers, counters, cursors, listeners, error handlers, document
  loaders) are opaque function values of type \<open>'fn\<close>; the keys of the listener map are
  activity classes, of type \<open>'ty\<close>. The private fields of the class are the fields of
  the record.
\<close>

record 'fn OutboxCallbacks =
  dispatcher :: 'fn
  counter :: "'fn option"
  firstCursor :: "'fn option"
  lastCursor :: "'fn option"

record ('fn, 'ty) Federation =
  router :: Router
  actorDispatcher :: "'fn option"
  outboxCallbacks :: "'fn OutboxCallbacks option"
  inboxListeners :: "'ty \<rightharpoonup> 'fn"
  inboxErrorHandler :: "'fn option"
  documentLoader :: 'fn
  treatHttps :: bool

text \<open>
  The constructor: a new router with the WebFinger route, no listener, the given
  document loader or else \<open>fetchDocumentLoader\<close> (an import, here a parameter), and
  \<open>treatHttps\<close> false unless given.
\<close>

definition Federation_new ::
  "template_reader \<Rightarrow> 'fn \<Rightarrow> 'fn option \<Rightarrow> bool option \<Rightarrow> error + ('fn, 'ty) Federation" where
  "Federation_new tparse fetchDocumentLoader documentLoader' treatHttps' =
     (case Router_add tparse ''/.well-known/webfinger'' ''webfinger'' Router_new of
        (Inl e, _) \<Rightarrow> Inl e
      | (Inr _, r) \<Rightarrow>
          Inr \<lparr>router = r,
               actorDispatcher = None,
               outboxCallbacks = None,
               inboxListeners = Map.empty,
               inboxErrorHandler = None,
               documentLoader = (case documentLoader' of None \<Rightarrow> fetchDocumentLoader | Some d \<Rightarrow> d),
               treatHttps = (case treatHttps' of None \<Rightarrow> False | Some b \<Rightarrow> b)\<rparr>)"

text \<open>
  The check \<open>variables.size !== 1 || !variables.has("handle")\<close> that the three
  path-registering setters share.
\<close>

definition bad_variables :: "string set \<Rightarrow> bool" where
  "bad_variables variables = (card variables \<noteq> 1 \<or> ''handle'' \<notin> variables)"

text \<open>The variables of a pattern, when the reader accepts it.\<close>

definition template_variables :: "template_reader \<Rightarrow> string \<Rightarrow> string set option" where
  "template_variables tparse template =
     (case tparse template of Inl _ \<Rightarrow> None | Inr vs \<Rightarrow> Some (set vs))"

text \<open>The objects that the setters return hold no state of their own: they are closures
  over the registry's fields. A token stands for each.\<close>

datatype OutboxCallbackSetters = OutboxCallbackSetters
datatype InboxListenerSetter = InboxListenerSetter

definition setActorDispatcher ::
  "template_reader \<Rightarrow> string \<Rightarrow> 'fn \<Rightarrow> ('fn, 'ty) Federation
     \<Rightarrow> (error + unit) \<times> ('fn, 'ty) Federation" where
  "setActorDispatcher tparse path dispatcher' f =
     (if Router_has ''actor'' (router f) then
        (Inl (RouterError ''Actor dispatcher already set.''), f)
      else
        (case Router_add tparse path ''actor'' (router f) of
           (Inl e, r) \<Rightarrow> (Inl e, f\<lparr>router := r\<rparr>)
         | (Inr variables, r) \<Rightarrow>
             if bad_variables variables then
               (Inl (RouterError ''Path for actor dispatcher must have one variable: {handle}''),
                f\<lparr>router := r\<rparr>)
             else (Inr (), f\<lparr>router := r, actorDispatcher := Some dispatcher'\<rparr>)))"

definition setOutboxDispatcher ::
  "template_reader \<Rightarrow> string \<Rightarrow> 'fn \<Rightarrow> ('fn, 'ty) Federation
     \<Rightarrow> (error + OutboxCallbackSetters) \<times> ('fn, 'ty) Federation" where
  "setOutboxDispatcher tparse path dispatcher' f =
     (if Router_has ''outbox'' (router f) then
        (Inl (RouterError ''Outbox dispatcher already set.''), f)
      else
        (case Router_add tparse path ''outbox'' (router f) of
           (Inl e, r) \<Rightarrow> (Inl e, f\<lparr>router := r\<rparr>)
         | (Inr variables, r) \<Rightarrow>
             if bad_variables variables then
               (Inl (RouterError ''Path for outbox dispatcher must have one variable: {handle}''),
                f\<lparr>router := r\<rparr>)
             else
               (Inr OutboxCallbackSetters,
                f\<lparr>router := r,
                  outboxCallbacks :=
                    Some \<lparr>dispatcher = dispatcher', counter = None,
                          firstCursor = None, lastCursor = None\<rparr>\<rparr>)))"

text \<open>
  The three methods of the chain that \<open>setOutboxDispatcher\<close> returns. Each assigns to a
  field of \<open>callbacks\<close>, the object that the closure captured and that the registry's
  \<open>outboxCallbacks\<close> field holds too, and returns the chain. The state they act on is
  that object.
\<close>

definition setCounter ::
  "'fn \<Rightarrow> 'fn OutboxCallbacks \<Rightarrow> (error + OutboxCallbackSetters) \<times> 'fn OutboxCallbacks" where
  "setCounter counter' callbacks = (Inr OutboxCallbackSetters, callbacks\<lparr>counter := Some counter'\<rparr>)"

definition setFirstCursor ::
  "'fn \<Rightarrow> 'fn OutboxCallbacks \<Rightarrow> (error + OutboxCallbackSetters) \<times> 'fn OutboxCallbacks" where
  "setFirstCursor cursor callbacks = (Inr OutboxCallbackSetters, callbacks\<lparr>firstCursor := Some cursor\<rparr>)"

definition setLastCursor ::
  "'fn \<Rightarrow> 'fn OutboxCallbacks \<Rightarrow> (error + OutboxCallbackSetters) \<times> 'fn OutboxCallbacks" where
  "setLastCursor cursor callbacks = (Inr OutboxCallbackSetters, callbacks\<lparr>lastCursor := Some cursor\<rparr>)"

definition setInboxListeners ::
  "template_reader \<Rightarrow> string \<Rightarrow> ('fn, 'ty) Federation
     \<Rightarrow> (error + InboxListenerSetter) \<times> ('fn, 'ty) Federation" where
  "setInboxListeners tparse path f =
     (if Router_has ''inbox'' (router f) then
        (Inl (RouterError ''Inbox already set.''), f)
      else
        (case Router_add tparse path ''inbox'' (router f) of
           (Inl e, r) \<Rightarrow> (Inl e, f\<lparr>router := r\<rparr>)
         | (Inr variables, r) \<Rightarrow>
             if bad_variables variables then
               (Inl (RouterError ''Path for inbox must have one variable: {handle}''),
                f\<lparr>router := r\<rparr>)
             else (Inr InboxListenerSetter, f\<lparr>router := r\<rparr>)))"

text \<open>The two methods of the setter that \<open>setInboxListeners\<close> returns; \<open>listeners\<close> is
  the registry's own listener map.\<close>

definition on ::
  "'ty \<Rightarrow> 'fn \<Rightarrow> ('fn, 'ty) Federation \<Rightarrow> (error + InboxListenerSetter) \<times> ('fn, 'ty) Federation" where
  "on type listener f =
     (if inboxListeners f type \<noteq> None then
        (Inl (TypeError ''Listener already set for this type.''), f)
      else
        (Inr InboxListenerSetter, f\<lparr>inboxListeners := (inboxListeners f)(type \<mapsto> listener)\<rparr>))"

definition onError ::
  "'fn \<Rightarrow> ('fn, 'ty) Federation \<Rightarrow> (error + InboxListenerSetter) \<times> ('fn, 'ty) Federation" where
  "onError handler f = (Inr InboxListenerSetter, f\<lparr>inboxErrorHandler := Some handler\<rparr>)"

section \<open>Dispatching a request\<close>

text \<open>
  A \<open>URL\<close> object with the three properties that the code reads. A request has its
  URL; the responses are of any type \<open>'resp\<close>, which also stands for the settled value
  of a promise of a response.
\<close>

record URL =
  href :: string
  origin :: string
  pathname :: string

record Request =
  url :: URL

record ('fn, 'cd) Context =
  context_router :: Router
  context_documentLoader :: 'fn
  context_request :: Request
  context_data :: 'cd
  context_treatHttps :: bool

record ('cd, 'resp) FederationHandlerParameters =
  contextData :: 'cd
  onNotFound :: "Request \<Rightarrow> 'resp"
  onNotAcceptable :: "Request \<Rightarrow> 'resp"

text \<open>
  The four sub-handlers are imports (\<open>webfinger/handler.ts\<close>, \<open>handler.ts\<close>): they are
  parameters of the model. Each takes the request and the fields of the object that
  \<open>handle\<close> passes to it, in the order the code writes them.
\<close>

record ('fn, 'ty, 'cd, 'resp) handlers =
  handleWebFinger ::
    "Request \<Rightarrow> ('fn, 'cd) Context \<Rightarrow> 'fn option \<Rightarrow> (Request \<Rightarrow> 'resp) \<Rightarrow> 'resp"
  handleActor ::
    "Request \<Rightarrow> string option \<Rightarrow> ('fn, 'cd) Context \<Rightarrow> 'fn \<Rightarrow> 'fn option
       \<Rightarrow> (Request \<Rightarrow> 'resp) \<Rightarrow> (Request \<Rightarrow> 'resp) \<Rightarrow> 'resp"
  handleOutbox ::
    "Request \<Rightarrow> string option \<Rightarrow> ('fn, 'cd) Context \<Rightarrow> 'fn
       \<Rightarrow> 'fn option \<Rightarrow> 'fn option \<Rightarrow> 'fn option \<Rightarrow> 'fn option
       \<Rightarrow> (Request \<Rightarrow> 'resp) \<Rightarrow> (Request \<Rightarrow> 'resp) \<Rightarrow> 'resp"
  handleInbox ::
    "Request \<Rightarrow> string option \<Rightarrow> ('fn, 'cd) Context \<Rightarrow> 'fn \<Rightarrow> 'fn option
       \<Rightarrow> ('ty \<rightharpoonup> 'fn) \<Rightarrow> 'fn option \<Rightarrow> (Request \<Rightarrow> 'resp) \<Rightarrow> 'resp"

definition handle ::
  "template_matcher \<Rightarrow> ('fn, 'ty, 'cd, 'resp) handlers \<Rightarrow> Request
     \<Rightarrow> ('cd, 'resp) FederationHandlerParameters \<Rightarrow> ('fn, 'ty) Federation \<Rightarrow> 'resp" where
  "handle tmatch hs request ps f =
     (case Router_route tmatch (pathname (url request)) (router f) of
        None \<Rightarrow> onNotFound ps request
      | Some route \<Rightarrow>
          (let context = \<lparr>context_router = router f,
                          context_documentLoader = documentLoader f,
                          context_request = request,
                          context_data = contextData ps,
                          context_treatHttps = treatHttps f\<rparr>
           in if name route = ''webfinger'' then
                handleWebFinger hs request context (actorDispatcher f) (onNotFound ps)
              else if name route = ''actor'' then
                handleActor hs request (values route ''handle'') context (documentLoader f)
                  (actorDispatcher f) (onNotFound ps) (onNotAcceptable ps)
              else if name route = ''outbox'' then
                handleOutbox hs request (values route ''handle'') context (documentLoader f)
                  (map_option dispatcher (outboxCallbacks f))
                  (Option.bind (outboxCallbacks f) counter)
                  (Option.bind (outboxCallbacks f) firstCursor)
                  (Option.bind (outboxCallbacks f) lastCursor)
                  (onNotFound ps) (onNotAcceptable ps)
              else if name route = ''inbox'' then
                handleInbox hs request (values route ''handle'') context (documentLoader f)
                  (actorDispatcher f) (inboxListeners f) (inboxErrorHandler f) (onNotFound ps)
              else onNotFound ps request))"

section \<open>A reader and a matcher to run the model\<close>

text \<open>
  The theorems below hold for every template reader and matcher. To run the model on
  concrete patterns, here is a reader of the simplest templates, where a variable is
  written \<open>{name}\<close> and braces do not nest, and a matcher that knows literal patterns
  only.
\<close>

fun simple_reader_scan :: "string \<Rightarrow> string option \<Rightarrow> string list \<Rightarrow> string + string list" where
  "simple_reader_scan [] None vs = Inr vs"
| "simple_reader_scan [] (Some v) vs = Inl ''Unclosed expression.''"
| "simple_reader_scan (c # cs) None vs =
     (if c = CHR ''{'' then simple_reader_scan cs (Some []) vs
      else if c = CHR ''}'' then Inl ''Unopened expression.''
      else simple_reader_scan cs None vs)"
| "simple_reader_scan (c # cs) (Some v) vs =
     (if c = CHR ''}'' then simple_reader_scan cs None (vs @ [v])
      else if c = CHR ''{'' then Inl ''Nested expression.''
      else simple_reader_scan cs (Some (v @ [c])) vs)"

definition simple_reader :: template_reader where
  "simple_reader template = simple_reader_scan template None []"

definition literal_matcher :: template_matcher where
  "literal_matcher template path = (if template = path then Some Map.empty else None)"

section \<open>The outbox send pipeline\<close>

text \<open>
  \<open>extractInboxes\<close> and \<open>sendActivity\<close> are functions of \<open>src/federation/send.ts\<close>.
  That file is not among the sources; its tests (\<open>send.test.ts\<close>) are. The definitions
  of this section follow section 4.5 of the spec, and the tests fix the inputs and the
  text of the errors.
\<close>

subsection \<open>extractInboxes\<close>

text \<open>Modelled from the spec: a recipient of \<open>extractInboxes\<close> (\<open>send.ts\<close> and the
  vocabulary are missing), an actor with its identifier, its personal inbox and, when it
  declares one, a shared inbox (\<open>endpoints.sharedInbox\<close>).\<close>

record Actor =
  actor_id :: URL
  actor_inbox :: URL
  sharedInbox :: "URL option"

text \<open>Modelled from the spec: the argument of \<open>extractInboxes\<close> (\<open>send.ts\<close> is
  missing). The options \<open>preferSharedInbox\<close> and \<open>excludeBaseUris\<close>, when a caller
  leaves them out, are false and the empty list.\<close>

record ExtractInboxesParameters =
  recipients :: "Actor list"
  preferSharedInbox :: bool
  excludeBaseUris :: "URL list"

text \<open>Modelled from the spec: the choice of the target inbox in \<open>extractInboxes\<close>
  (\<open>send.ts\<close> is missing), ``if \<open>preferSharedInbox\<close> and the recipient declares a shared
  inbox, use it; otherwise use the recipient's personal inbox''.\<close>

definition chosen_inbox :: "bool \<Rightarrow> Actor \<Rightarrow> URL" where
  "chosen_inbox prefer recipient =
     (if prefer then
        (case sharedInbox recipient of Some shared \<Rightarrow> shared | None \<Rightarrow> actor_inbox recipient)
      else actor_inbox recipient)"

text \<open>Modelled from the spec: the test for skipping in \<open>extractInboxes\<close> (\<open>send.ts\<close> is
  missing), ``skip a recipient entirely if its chosen inbox's origin matches any URI in
  \<open>excludeBaseUris\<close>''.\<close>

definition excluded :: "URL list \<Rightarrow> URL \<Rightarrow> bool" where
  "excluded baseUris inbox' = (\<exists>u \<in> set baseUris. origin u = origin inbox')"

text \<open>Modelled from the spec: the loop of \<open>extractInboxes\<close> (\<open>send.ts\<close> is missing),
  ``for each recipient actor, choose a target inbox; group recipients by final inbox URL
  into a mapping from inbox to set of recipient actor identifiers''. The loop carries
  the mapping built so far.\<close>

fun extractInboxes_loop ::
  "bool \<Rightarrow> URL list \<Rightarrow> Actor list \<Rightarrow> (string \<rightharpoonup> string set) \<Rightarrow> (string \<rightharpoonup> string set)" where
  "extractInboxes_loop prefer baseUris [] inboxes = inboxes"
| "extractInboxes_loop prefer baseUris (recipient # rest) inboxes =
     (let inbox' = chosen_inbox prefer recipient in
      if excluded baseUris inbox' then extractInboxes_loop prefer baseUris rest inboxes
      else
        extractInboxes_loop prefer baseUris rest
          (inboxes(href inbox' \<mapsto>
             insert (href (actor_id recipient))
               (case inboxes (href inbox') of None \<Rightarrow> {} | Some ids \<Rightarrow> ids))))"

text \<open>Modelled from the spec: \<open>extractInboxes\<close> (\<open>send.ts\<close> is missing), the loop
  started on the empty mapping.\<close>

definition extractInboxes :: "ExtractInboxesParameters \<Rightarrow> (string \<rightharpoonup> string set)" where
  "extractInboxes ps =
     extractInboxes_loop (preferSharedInbox ps) (excludeBaseUris ps) (recipients ps) Map.empty"

text \<open>
  Two notions to state the properties of \<open>extractInboxes\<close> with: the recipients that
  are not skipped, and the identifiers of those among them whose chosen inbox is a
  given URL.
\<close>

definition kept_recipients :: "bool \<Rightarrow> URL list \<Rightarrow> Actor list \<Rightarrow> Actor list" where
  "kept_recipients prefer baseUris rs =
     filter (\<lambda>r. \<not> excluded baseUris (chosen_inbox prefer r)) rs"

definition recipients_at :: "bool \<Rightarrow> URL list \<Rightarrow> Actor list \<Rightarrow> string \<Rightarrow> string set" where
  "recipients_at prefer baseUris rs k =
     (\<lambda>r. href (actor_id r)) `
       set (filter (\<lambda>r. href (chosen_inbox prefer r) = k) (kept_recipients prefer baseUris rs))"

subsection \<open>sendActivity\<close>

text \<open>
  Modelled from the spec: the data of \<open>sendActivity\<close> (\<open>send.ts\<close> and the vocabulary
  are missing). An activity has its optional identifier and the values of its \<open>actor\<close>
  property. The serialisation to JSON-LD, the signing of the request (digest, date and
  signature headers) and the network are collaborators of the pipeline: they are the
  fields of an environment. The requests already issued are the state, so that a call
  that issues no request leaves the state as it was.
\<close>

record Activity =
  activity_id :: "URL option"
  actorIds :: "URL list"

record HttpRequest =
  http_method :: string
  request_url :: URL
  headers :: "string \<rightharpoonup> string"
  body :: string

record Response =
  status :: nat
  statusText :: string
  response_text :: string

record 'key SendActivityParameters =
  activity :: Activity
  privateKey :: 'key
  keyId :: URL
  inbox :: URL
  caller_headers :: "string \<rightharpoonup> string"

record 'key SendEnvironment =
  toJsonLd :: "Activity \<Rightarrow> string"
  sign :: "'key \<Rightarrow> URL \<Rightarrow> HttpRequest \<Rightarrow> HttpRequest"
  fetch :: "HttpRequest \<Rightarrow> Response"

text \<open>Modelled from the spec: the printing of the status code in the error message of
  \<open>sendActivity\<close> (\<open>send.ts\<close> is missing), its decimal numeral.\<close>

definition digit_char :: "nat \<Rightarrow> char" where
  "digit_char d = ''0123456789'' ! (d mod 10)"

function string_of_nat :: "nat \<Rightarrow> string" where
  "string_of_nat n =
     (if n < 10 then [digit_char n] else string_of_nat (n div 10) @ [digit_char n])"
  by pat_completeness auto
termination
  by (relation "measure id") auto

declare string_of_nat.simps [simp del]

text \<open>Modelled from the spec: the text of the activity's identifier in the error
  message of \<open>sendActivity\<close> (\<open>send.ts\<close> is missing). The spec does not say what stands
  for the identifier of an activity that has none; the model prints it as JavaScript
  prints an absent value.\<close>

definition activity_id_text :: "Activity \<Rightarrow> string" where
  "activity_id_text a = (case activity_id a of None \<Rightarrow> ''undefined'' | Some u \<Rightarrow> href u)"

text \<open>Modelled from the spec: the message of the error of \<open>sendActivity\<close> (\<open>send.ts\<close>
  is missing), ``carrying the activity id, inbox URL, status code, status text, and
  response body text verbatim'', in the format that the test expects.\<close>

definition failure_message :: "Activity \<Rightarrow> URL \<Rightarrow> Response \<Rightarrow> string" where
  "failure_message a inbox' response =
     ''Failed to send activity '' @ activity_id_text a @ '' to '' @ href inbox'
       @ '' ('' @ string_of_nat (status response) @ '' '' @ statusText response @ ''):''
       @ [CHR 0x0A] @ response_text response"

text \<open>Modelled from the spec: the request of \<open>sendActivity\<close> (\<open>send.ts\<close> is missing),
  a signed POST to the inbox with the serialised activity as body, with the caller's
  headers, which do not override the content type, and with what the signing adds.\<close>

definition signed_request :: "'key SendEnvironment \<Rightarrow> 'key SendActivityParameters \<Rightarrow> HttpRequest" where
  "signed_request env ps =
     sign env (privateKey ps) (keyId ps)
       \<lparr>http_method = ''POST'',
        request_url = inbox ps,
        headers = (caller_headers ps)(''Content-Type'' \<mapsto> ''application/activity+json''),
        body = toJsonLd env (activity ps)\<rparr>"

text \<open>Modelled from the spec: \<open>sendActivity\<close> (\<open>send.ts\<close> is missing). It
  ``validates the activity carries at least one \<open>actor\<close> property''; then it issues the
  request; ``a 2xx response is success (no return value); any non-2xx response fails''.\<close>

definition sendActivity ::
  "'key SendEnvironment \<Rightarrow> 'key SendActivityParameters \<Rightarrow> HttpRequest list
     \<Rightarrow> (error + unit) \<times> HttpRequest list" where
  "sendActivity env ps issued =
     (if actorIds (activity ps) = [] then
        (Inl (TypeError ''The activity to send must have at least one actor property.''), issued)
      else
        (let request = signed_request env ps;
             response = fetch env request;
             issued' = issued @ [request]
         in if 200 \<le> status response \<and> status response < 300 then (Inr (), issued')
            else (Inl (Error (failure_message (activity ps) (inbox ps) response)), issued')))"

section \<open>Concrete registries\<close>

text \<open>
  A registry as the constructor leaves it, with the simple reader; callbacks are
  numbered, activity classes are named.
\<close>

definition example_federation :: "(nat, string) Federation" where
  "example_federation =
     \<lparr>router = \<lparr>routes = [(''/.well-known/webfinger'', ''webfinger'')]\<rparr>,
      actorDispatcher = None,
      outboxCallbacks = None,
      inboxListeners = Map.empty,
      inboxErrorHandler = None,
      documentLoader = 0,
      treatHttps = False\<rparr>"

definition example_callbacks :: "nat OutboxCallbacks" where
  "example_callbacks = \<lparr>dispatcher = 7, counter = None, firstCursor = None, lastCursor = None\<rparr>"

text \<open>The registry after \<open>setInboxListeners("/users/{handle}/inbox").on(Follow, 5)\<close>.\<close>

definition example_inbox_federation :: "(nat, string) Federation" where
  "example_inbox_federation =
     \<lparr>router = \<lparr>routes = [(''/.well-known/webfinger'', ''webfinger''),
                          (''/users/{handle}/inbox'', ''inbox'')]\<rparr>,
      actorDispatcher = None,
      outboxCallbacks = None,
      inboxListeners = [''Follow'' \<mapsto> 5],
      inboxErrorHandler = None,
      documentLoader = 0,
      treatHttps = False\<rparr>"

text \<open>
  A registry whose router also holds a route of a role that \<open>handle\<close> does not know,
  sub-handlers and callbacks that answer with their own names, and two requests.
\<close>

definition example_followers_federation :: "(nat, string) Federation" where
  "example_followers_federation =
     example_federation
       \<lparr>router := \<lparr>routes = [(''/.well-known/webfinger'', ''webfinger''),
                             (''/followers'', ''followers'')]\<rparr>\<rparr>"

definition example_handlers :: "(nat, string, unit, string) handlers" where
  "example_handlers =
     \<lparr>handleWebFinger = (\<lambda>_ _ _ _. ''webfinger response''),
      handleActor = (\<lambda>_ _ _ _ _ _ _. ''actor response''),
      handleOutbox = (\<lambda>_ _ _ _ _ _ _ _ _ _. ''outbox response''),
      handleInbox = (\<lambda>_ _ _ _ _ _ _ _. ''inbox response'')\<rparr>"

definition example_parameters :: "(unit, string) FederationHandlerParameters" where
  "example_parameters =
     \<lparr>contextData = (),
      onNotFound = (\<lambda>request. ''not found: '' @ pathname (url request)),
      onNotAcceptable = (\<lambda>_. ''not acceptable'')\<rparr>"

definition example_request :: "string \<Rightarrow> Request" where
  "example_request path =
     \<lparr>url = \<lparr>href = ''https://example.com'' @ path, origin = ''https://example.com'',
              pathname = path\<rparr>\<rparr>"

section \<open>The data of send.test.ts\<close>

definition example_url :: "string \<Rightarrow> string \<Rightarrow> URL" where
  "example_url origin' path = \<lparr>href = origin' @ path, origin = origin', pathname = path\<rparr>"

definition test_alice :: Actor where
  "test_alice = \<lparr>actor_id = example_url ''https://example.com'' ''/alice'',
            actor_inbox = example_url ''https://example.com'' ''/alice/inbox'',
            sharedInbox = Some (example_url ''https://example.com'' ''/inbox'')\<rparr>"

definition test_app :: Actor where
  "test_app = \<lparr>actor_id = example_url ''https://example.com'' ''/app'',
          actor_inbox = example_url ''https://example.com'' ''/app/inbox'',
          sharedInbox = Some (example_url ''https://example.com'' ''/inbox'')\<rparr>"

definition test_group :: Actor where
  "test_group = \<lparr>actor_id = example_url ''https://example.org'' ''/group'',
            actor_inbox = example_url ''https://example.org'' ''/group/inbox'',
            sharedInbox = None\<rparr>"

definition test_service :: Actor where
  "test_service = \<lparr>actor_id = example_url ''https://example.net'' ''/service'',
              actor_inbox = example_url ''https://example.net'' ''/service/inbox'',
              sharedInbox = Some (example_url ''https://example.net'' ''/inbox'')\<rparr>"

definition test_recipients :: "Actor list" where
  "test_recipients = [test_alice, test_app, test_group, test_service]"

text \<open>The fourth and the second call of the test of \<open>extractInboxes\<close>.\<close>

definition test_exclude_parameters :: ExtractInboxesParameters where
  "test_exclude_parameters =
     \<lparr>recipients = test_recipients, preferSharedInbox = False,
      excludeBaseUris = [example_url ''https://example.com'' ''/'']\<rparr>"

definition test_shared_parameters :: ExtractInboxesParameters where
  "test_shared_parameters =
     \<lparr>recipients = test_recipients, preferSharedInbox = True, excludeBaseUris = []\<rparr>"

text \<open>
  The two failing calls of the test of \<open>sendActivity\<close>: an activity with identifier
  and actor sent to an inbox that answers 500, and an activity without anything. The
  serialisation and the signing are not what the test looks at: they are stubs here.
\<close>

definition test_environment :: "unit SendEnvironment" where
  "test_environment =
     \<lparr>toJsonLd = (\<lambda>_. ''{}''),
      sign = (\<lambda>_ _ request. request),
      fetch = (\<lambda>request.
        if pathname (request_url request) = ''/inbox2'' then
          \<lparr>status = 500, statusText = ''Internal Server Error'',
           response_text = ''something went wrong''\<rparr>
        else \<lparr>status = 202, statusText = ''Accepted'', response_text = ''''\<rparr>)\<rparr>"

definition test_send_parameters :: "Activity \<Rightarrow> unit SendActivityParameters" where
  "test_send_parameters a =
     \<lparr>activity = a, privateKey = (),
      keyId = example_url ''https://example.com'' ''/key2'',
      inbox = example_url ''https://example.com'' ''/inbox2'',
      caller_headers = Map.empty\<rparr>"

definition test_activity :: Activity where
  "test_activity =
     \<lparr>activity_id = Some (example_url ''https://example.com'' ''/activity''),
      actorIds = [example_url ''https://example.com'' ''/person'']\<rparr>"

definition test_empty_activity :: Activity where
  "test_empty_activity = \<lparr>activity_id = None, actorIds = []\<rparr>"

section \<open>Properties of the registry\<close>

subsection \<open>The shared check\<close>

lemma bad_variables_iff: "bad_variables vs \<longleftrightarrow> vs \<noteq> {''handle''}"
proof
  assume "bad_variables vs"
  then show "vs \<noteq> {''handle''}" by (auto simp: bad_variables_def)
next
  assume ne: "vs \<noteq> {''handle''}"
  show "bad_variables vs"
  proof (rule ccontr)
    assume "\<not> bad_variables vs"
    then have c: "card vs = 1" and h: "''handle'' \<in> vs" by (auto simp: bad_variables_def)
    from c obtain x where "vs = {x}" by (auto simp: card_1_singleton_iff)
    with h ne show False by auto
  qed
qed

lemma template_variables_cases:
  obtains (invalid) msg where "tparse p = Inl msg" "template_variables tparse p = None"
  | (bad) vs where "tparse p = Inr vs" "template_variables tparse p = Some (set vs)"
      "bad_variables (set vs)" "set vs \<noteq> {''handle''}"
  | (good) vs where "tparse p = Inr vs" "template_variables tparse p = Some {''handle''}"
      "\<not> bad_variables (set vs)" "set vs = {''handle''}"
proof (cases "tparse p")
  case (Inl msg)
  then show ?thesis using invalid by (simp add: template_variables_def)
next
  case (Inr vs)
  show ?thesis
  proof (cases "set vs = {''handle''}")
    case True
    then have "\<not> bad_variables (set vs)" using bad_variables_iff by blast
    with Inr True show ?thesis using good by (simp add: template_variables_def)
  next
    case False
    then have "bad_variables (set vs)" using bad_variables_iff by blast
    with Inr False show ?thesis using bad by (simp add: template_variables_def)
  qed
qed

lemma Router_has_added: "Router_has nm (r\<lparr>routes := routes r @ [(t, nm)]\<rparr>)"
  by (simp add: Router_has_def)

subsection \<open>The four outcomes of each path-registering setter\<close>

lemma setActorDispatcher_has:
  "Router_has ''actor'' (router f) \<Longrightarrow>
     setActorDispatcher tparse p d f = (Inl (RouterError ''Actor dispatcher already set.''), f)"
  by (simp add: setActorDispatcher_def)

lemma setActorDispatcher_invalid:
  assumes "\<not> Router_has ''actor'' (router f)" "tparse p = Inl msg"
  shows "setActorDispatcher tparse p d f = (Inl (RouterError msg), f)"
  using assms by (simp add: setActorDispatcher_def Router_add_def)

lemma setActorDispatcher_bad:
  assumes "\<not> Router_has ''actor'' (router f)" "tparse p = Inr vs" "bad_variables (set vs)"
  shows "setActorDispatcher tparse p d f =
       (Inl (RouterError ''Path for actor dispatcher must have one variable: {handle}''),
        f\<lparr>router := (router f)\<lparr>routes := routes (router f) @ [(p, ''actor'')]\<rparr>\<rparr>)"
  using assms by (simp add: setActorDispatcher_def Router_add_def)

lemma setActorDispatcher_good:
  assumes "\<not> Router_has ''actor'' (router f)" "tparse p = Inr vs" "\<not> bad_variables (set vs)"
  shows "setActorDispatcher tparse p d f =
       (Inr (),
        f\<lparr>router := (router f)\<lparr>routes := routes (router f) @ [(p, ''actor'')]\<rparr>,
          actorDispatcher := Some d\<rparr>)"
  using assms by (simp add: setActorDispatcher_def Router_add_def)

lemma setOutboxDispatcher_has:
  "Router_has ''outbox'' (router f) \<Longrightarrow>
     setOutboxDispatcher tparse p d f = (Inl (RouterError ''Outbox dispatcher already set.''), f)"
  by (simp add: setOutboxDispatcher_def)

lemma setOutboxDispatcher_invalid:
  assumes "\<not> Router_has ''outbox'' (router f)" "tparse p = Inl msg"
  shows "setOutboxDispatcher tparse p d f = (Inl (RouterError msg), f)"
  using assms by (simp add: setOutboxDispatcher_def Router_add_def)

lemma setOutboxDispatcher_bad:
  assumes "\<not> Router_has ''outbox'' (router f)" "tparse p = Inr vs" "bad_variables (set vs)"
  shows "setOutboxDispatcher tparse p d f =
       (Inl (RouterError ''Path for outbox dispatcher must have one variable: {handle}''),
        f\<lparr>router := (router f)\<lparr>routes := routes (router f) @ [(p, ''outbox'')]\<rparr>\<rparr>)"
  using assms by (simp add: setOutboxDispatcher_def Router_add_def)

lemma setOutboxDispatcher_good:
  assumes "\<not> Router_has ''outbox'' (router f)" "tparse p = Inr vs" "\<not> bad_variables (set vs)"
  shows "setOutboxDispatcher tparse p d f =
       (Inr OutboxCallbackSetters,
        f\<lparr>router := (router f)\<lparr>routes := routes (router f) @ [(p, ''outbox'')]\<rparr>,
          outboxCallbacks :=
            Some \<lparr>dispatcher = d, counter = None, firstCursor = None, lastCursor = None\<rparr>\<rparr>)"
  using assms by (simp add: setOutboxDispatcher_def Router_add_def)

lemma setInboxListeners_has:
  "Router_has ''inbox'' (router f) \<Longrightarrow>
     setInboxListeners tparse p f = (Inl (RouterError ''Inbox already set.''), f)"
  by (simp add: setInboxListeners_def)

lemma setInboxListeners_invalid:
  assumes "\<not> Router_has ''inbox'' (router f)" "tparse p = Inl msg"
  shows "setInboxListeners tparse p f = (Inl (RouterError msg), f)"
  using assms by (simp add: setInboxListeners_def Router_add_def)

lemma setInboxListeners_bad:
  assumes "\<not> Router_has ''inbox'' (router f)" "tparse p = Inr vs" "bad_variables (set vs)"
  shows "setInboxListeners tparse p f =
       (Inl (RouterError ''Path for inbox must have one variable: {handle}''),
        f\<lparr>router := (router f)\<lparr>routes := routes (router f) @ [(p, ''inbox'')]\<rparr>\<rparr>)"
  using assms by (simp add: setInboxListeners_def Router_add_def)

lemma setInboxListeners_good:
  assumes "\<not> Router_has ''inbox'' (router f)" "tparse p = Inr vs" "\<not> bad_variables (set vs)"
  shows "setInboxListeners tparse p f =
       (Inr InboxListenerSetter,
        f\<lparr>router := (router f)\<lparr>routes := routes (router f) @ [(p, ''inbox'')]\<rparr>\<rparr>)"
  using assms by (simp add: setInboxListeners_def Router_add_def)

text \<open>A call that returns has registered the role; so has one that fails the check on
  the variables.\<close>

lemma setActorDispatcher_Inr:
  assumes "setActorDispatcher tparse p d f = (Inr u, f')"
  shows "Router_has ''actor'' (router f') \<and> actorDispatcher f' = Some d
         \<and> template_variables tparse p = Some {''handle''}"
proof (cases "Router_has ''actor'' (router f)")
  case True
  then show ?thesis using assms by (simp add: setActorDispatcher_has)
next
  case False
  show ?thesis
  proof (cases rule: template_variables_cases [of tparse p])
    case (invalid msg)
    then show ?thesis
      using assms False setActorDispatcher_invalid [where f = f and tparse = tparse and p = p and msg = msg and d = d]
      by simp
  next
    case (bad vs)
    then show ?thesis
      using assms False setActorDispatcher_bad [where f = f and tparse = tparse and p = p and vs = vs and d = d]
      by simp
  next
    case (good vs)
    have "f' = f\<lparr>router := (router f)\<lparr>routes := routes (router f) @ [(p, ''actor'')]\<rparr>,
          actorDispatcher := Some d\<rparr>"
      using assms False good(1,3)
        setActorDispatcher_good [where f = f and tparse = tparse and p = p and vs = vs and d = d]
      by simp
    then show ?thesis using good(2) by (simp add: Router_has_added)
  qed
qed

lemma setOutboxDispatcher_Inr:
  assumes "setOutboxDispatcher tparse p d f = (Inr u, f')"
  shows "Router_has ''outbox'' (router f')
         \<and> outboxCallbacks f' =
             Some \<lparr>dispatcher = d, counter = None, firstCursor = None, lastCursor = None\<rparr>
         \<and> template_variables tparse p = Some {''handle''}"
proof (cases "Router_has ''outbox'' (router f)")
  case True
  then show ?thesis using assms by (simp add: setOutboxDispatcher_has)
next
  case False
  show ?thesis
  proof (cases rule: template_variables_cases [of tparse p])
    case (invalid msg)
    then show ?thesis
      using assms False setOutboxDispatcher_invalid [where f = f and tparse = tparse and p = p and msg = msg and d = d]
      by simp
  next
    case (bad vs)
    then show ?thesis
      using assms False setOutboxDispatcher_bad [where f = f and tparse = tparse and p = p and vs = vs and d = d]
      by simp
  next
    case (good vs)
    have "f' = f\<lparr>router := (router f)\<lparr>routes := routes (router f) @ [(p, ''outbox'')]\<rparr>,
          outboxCallbacks :=
            Some \<lparr>dispatcher = d, counter = None, firstCursor = None, lastCursor = None\<rparr>\<rparr>"
      using assms False good(1,3)
        setOutboxDispatcher_good [where f = f and tparse = tparse and p = p and vs = vs and d = d]
      by simp
    then show ?thesis using good(2) by (simp add: Router_has_added)
  qed
qed

lemma setInboxListeners_Inr:
  assumes "setInboxListeners tparse p f = (Inr u, f')"
  shows "Router_has ''inbox'' (router f') \<and> inboxListeners f' = inboxListeners f
         \<and> template_variables tparse p = Some {''handle''}"
proof (cases "Router_has ''inbox'' (router f)")
  case True
  then show ?thesis using assms by (simp add: setInboxListeners_has)
next
  case False
  show ?thesis
  proof (cases rule: template_variables_cases [of tparse p])
    case (invalid msg)
    then show ?thesis
      using assms False setInboxListeners_invalid [where f = f and tparse = tparse and p = p and msg = msg]
      by simp
  next
    case (bad vs)
    then show ?thesis
      using assms False setInboxListeners_bad [where f = f and tparse = tparse and p = p and vs = vs]
      by simp
  next
    case (good vs)
    have "f' = f\<lparr>router := (router f)\<lparr>routes := routes (router f) @ [(p, ''inbox'')]\<rparr>\<rparr>"
      using assms False good(1,3)
        setInboxListeners_good [where f = f and tparse = tparse and p = p and vs = vs]
      by simp
    then show ?thesis using good(2) by (simp add: Router_has_added)
  qed
qed

subsection \<open>The concrete registry\<close>

text \<open>The concrete registry is the one that the constructor builds.\<close>

lemma example_federation_new:
  "Federation_new simple_reader 0 None None = Inr example_federation"
  by (simp add: Federation_new_def Router_add_def Router_new_def simple_reader_def
      example_federation_def)

lemma example_has [simp]:
  "\<not> Router_has ''actor'' (router example_federation)"
  "\<not> Router_has ''outbox'' (router example_federation)"
  "\<not> Router_has ''inbox'' (router example_federation)"
  by (simp_all add: Router_has_def example_federation_def)

lemma simple_reader_examples:
  "simple_reader ''/users/{handle}'' = Inr [''handle'']"
  "simple_reader ''/users/{handle}/outbox'' = Inr [''handle'']"
  "simple_reader ''/users/{handle}/inbox'' = Inr [''handle'']"
  "simple_reader ''/users'' = Inr []"
  "simple_reader ''/users/{handle}/{page}'' = Inr [''handle'', ''page'']"
  "simple_reader ''/users/{handle'' = Inl ''Unclosed expression.''"
  by (simp_all add: simple_reader_def)

lemma template_variables_examples:
  "template_variables simple_reader ''/users/{handle}'' = Some {''handle''}"
  "template_variables simple_reader ''/users'' = Some {}"
  by (simp_all add: template_variables_def simple_reader_examples)

lemma bad_variables_examples:
  "\<not> bad_variables (set [''handle''])"
  "bad_variables (set [])"
  "bad_variables (set [''handle'', ''page''])"
  by (simp_all add: bad_variables_def)

lemmas example_simps = Router_add_def Router_has_def simple_reader_def bad_variables_def
  example_federation_def

lemma example_setActorDispatcher:
  "setActorDispatcher simple_reader ''/users/{handle}'' d example_federation =
     (Inr (), example_federation
        \<lparr>router := \<lparr>routes = [(''/.well-known/webfinger'', ''webfinger''), (''/users/{handle}'', ''actor'')]\<rparr>,
         actorDispatcher := Some d\<rparr>)"
  by (simp add: setActorDispatcher_def example_simps)

lemma example_setOutboxDispatcher:
  "setOutboxDispatcher simple_reader ''/users/{handle}/outbox'' d example_federation =
     (Inr OutboxCallbackSetters, example_federation
        \<lparr>router := \<lparr>routes = [(''/.well-known/webfinger'', ''webfinger''), (''/users/{handle}/outbox'', ''outbox'')]\<rparr>,
         outboxCallbacks := Some \<lparr>dispatcher = d, counter = None, firstCursor = None, lastCursor = None\<rparr>\<rparr>)"
  by (simp add: setOutboxDispatcher_def example_simps)

lemma example_setInboxListeners:
  "setInboxListeners simple_reader ''/users/{handle}/inbox'' example_federation =
     (Inr InboxListenerSetter, example_federation
        \<lparr>router := \<lparr>routes = [(''/.well-known/webfinger'', ''webfinger''), (''/users/{handle}/inbox'', ''inbox'')]\<rparr>\<rparr>)"
  by (simp add: setInboxListeners_def example_simps)

lemma example_inbox_federation_built:
  "on ''Follow'' 5 (snd (setInboxListeners simple_reader ''/users/{handle}/inbox'' example_federation))
     = (Inr InboxListenerSetter, example_inbox_federation)"
  by (simp add: example_setInboxListeners on_def)
     (simp add: example_federation_def example_inbox_federation_def)

lemma example_routes:
  "Router_route literal_matcher ''/nowhere'' (router example_followers_federation) = None"
  "Router_route literal_matcher ''/followers'' (router example_followers_federation)
     = Some \<lparr>name = ''followers'', values = Map.empty\<rparr>"
  by (simp_all add: Router_route_def literal_matcher_def example_followers_federation_def)

section \<open>Properties of the send pipeline\<close>

subsection \<open>What extractInboxes holds at each key\<close>

lemma kept_recipients_Cons:
  "kept_recipients prefer ex (r # rs) =
     (if excluded ex (chosen_inbox prefer r) then kept_recipients prefer ex rs
      else r # kept_recipients prefer ex rs)"
  by (simp add: kept_recipients_def)

lemma recipients_at_Nil: "recipients_at prefer ex [] k = {}"
  by (simp add: recipients_at_def kept_recipients_def)

lemma recipients_at_Cons:
  "recipients_at prefer ex (r # rs) k =
     (if \<not> excluded ex (chosen_inbox prefer r) \<and> href (chosen_inbox prefer r) = k
      then insert (href (actor_id r)) (recipients_at prefer ex rs k)
      else recipients_at prefer ex rs k)"
  by (auto simp: recipients_at_def kept_recipients_Cons)

lemma extractInboxes_loop_at:
  "extractInboxes_loop prefer ex rs m k =
     (if recipients_at prefer ex rs k = {} then m k
      else Some (recipients_at prefer ex rs k \<union> (case m k of None \<Rightarrow> {} | Some ids \<Rightarrow> ids)))"
proof (induction rs arbitrary: m)
  case Nil
  show ?case by (simp add: recipients_at_Nil)
next
  case (Cons r rs)
  show ?case
  proof (cases "excluded ex (chosen_inbox prefer r)")
    case True
    then show ?thesis by (simp add: Cons.IH recipients_at_Cons)
  next
    case False
    show ?thesis
    proof (cases "href (chosen_inbox prefer r) = k")
      case True
      with False show ?thesis
        by (simp add: Cons.IH recipients_at_Cons Let_def split: option.split)
    next
      case ne: False
      with False show ?thesis
        by (simp add: Cons.IH recipients_at_Cons Let_def)
    qed
  qed
qed

lemma extractInboxes_at:
  "extractInboxes ps k =
     (if recipients_at (preferSharedInbox ps) (excludeBaseUris ps) (recipients ps) k = {} then None
      else Some (recipients_at (preferSharedInbox ps) (excludeBaseUris ps) (recipients ps) k))"
  by (simp add: extractInboxes_def extractInboxes_loop_at)

lemma recipients_at_empty_iff:
  "recipients_at prefer ex rs k = {} \<longleftrightarrow>
     k \<notin> (\<lambda>r. href (chosen_inbox prefer r)) ` set (kept_recipients prefer ex rs)"
  by (auto simp: recipients_at_def)

lemma mem_recipients_at:
  "i \<in> recipients_at prefer ex rs k \<longleftrightarrow>
     (\<exists>r \<in> set (kept_recipients prefer ex rs). href (chosen_inbox prefer r) = k \<and> href (actor_id r) = i)"
  by (auto simp: recipients_at_def)

lemma dom_extractInboxes:
  "dom (extractInboxes ps) =
     (\<lambda>r. href (chosen_inbox (preferSharedInbox ps) r)) `
       set (kept_recipients (preferSharedInbox ps) (excludeBaseUris ps) (recipients ps))"
  by (auto simp: dom_def extractInboxes_at recipients_at_empty_iff)

lemma Union_ran_extractInboxes:
  "\<Union> (ran (extractInboxes ps)) =
     (\<lambda>r. href (actor_id r)) `
       set (kept_recipients (preferSharedInbox ps) (excludeBaseUris ps) (recipients ps))"
proof (intro set_eqI iffI)
  fix i
  assume "i \<in> \<Union> (ran (extractInboxes ps))"
  then obtain k s where "extractInboxes ps k = Some s" "i \<in> s" by (auto simp: ran_def)
  then have "i \<in> recipients_at (preferSharedInbox ps) (excludeBaseUris ps) (recipients ps) k"
    by (simp add: extractInboxes_at split: if_splits)
  then show "i \<in> (\<lambda>r. href (actor_id r)) `
       set (kept_recipients (preferSharedInbox ps) (excludeBaseUris ps) (recipients ps))"
    by (auto simp: mem_recipients_at)
next
  fix i
  assume "i \<in> (\<lambda>r. href (actor_id r)) `
       set (kept_recipients (preferSharedInbox ps) (excludeBaseUris ps) (recipients ps))"
  then obtain r where r: "r \<in> set (kept_recipients (preferSharedInbox ps) (excludeBaseUris ps) (recipients ps))"
    "i = href (actor_id r)" by auto
  let ?k = "href (chosen_inbox (preferSharedInbox ps) r)"
  let ?R = "recipients_at (preferSharedInbox ps) (excludeBaseUris ps) (recipients ps) ?k"
  from r have in_R: "i \<in> ?R" by (auto simp: mem_recipients_at)
  then have "extractInboxes ps ?k = Some ?R" by (auto simp: extractInboxes_at)
  then have "?R \<in> ran (extractInboxes ps)" by (auto simp: ran_def)
  with in_R show "i \<in> \<Union> (ran (extractInboxes ps))" by blast
qed

lemma set_kept_recipients:
  "set (kept_recipients prefer ex rs) = {r \<in> set rs. \<not> excluded ex (chosen_inbox prefer r)}"
  by (auto simp: kept_recipients_def)

lemma distinct_chosen_kept:
  "distinct (map (\<lambda>r. href (chosen_inbox prefer r)) rs) \<Longrightarrow>
     distinct (map (\<lambda>r. href (chosen_inbox prefer r)) (kept_recipients prefer ex rs))"
  by (simp add: kept_recipients_def distinct_map_filter)

lemma recipients_at_single:
  assumes d: "distinct (map (\<lambda>r. href (chosen_inbox prefer r)) rs)"
    and r: "r \<in> set (kept_recipients prefer ex rs)"
  shows "recipients_at prefer ex rs (href (chosen_inbox prefer r)) = {href (actor_id r)}"
proof -
  from d have inj: "inj_on (\<lambda>r. href (chosen_inbox prefer r)) (set rs)"
    by (simp add: distinct_map)
  have sub: "set (kept_recipients prefer ex rs) \<subseteq> set rs"
    by (auto simp: set_kept_recipients)
  have same: "\<And>r'. r' \<in> set (kept_recipients prefer ex rs) \<Longrightarrow>
      href (chosen_inbox prefer r') = href (chosen_inbox prefer r) \<Longrightarrow> r' = r"
    using inj sub r by (meson inj_onD subsetD)
  show ?thesis
  proof (intro set_eqI iffI)
    fix i assume "i \<in> recipients_at prefer ex rs (href (chosen_inbox prefer r))"
    then obtain r' where "r' \<in> set (kept_recipients prefer ex rs)"
      "href (chosen_inbox prefer r') = href (chosen_inbox prefer r)" "href (actor_id r') = i"
      by (auto simp: mem_recipients_at)
    with same show "i \<in> {href (actor_id r)}" by blast
  next
    fix i assume "i \<in> {href (actor_id r)}"
    with r show "i \<in> recipients_at prefer ex rs (href (chosen_inbox prefer r))"
      by (auto simp: mem_recipients_at)
  qed
qed

lemma extractInboxes_key_of_id:
  assumes d: "distinct (map (\<lambda>r. href (actor_id r)) (recipients ps))"
    and r: "r \<in> set (recipients ps)"
    and m: "extractInboxes ps k = Some s" and i: "href (actor_id r) \<in> s"
  shows "k = href (chosen_inbox (preferSharedInbox ps) r)
         \<and> \<not> excluded (excludeBaseUris ps) (chosen_inbox (preferSharedInbox ps) r)"
proof -
  from d have inj: "inj_on (\<lambda>r. href (actor_id r)) (set (recipients ps))"
    by (simp add: distinct_map)
  from m i have "href (actor_id r)
      \<in> recipients_at (preferSharedInbox ps) (excludeBaseUris ps) (recipients ps) k"
    by (simp add: extractInboxes_at split: if_splits)
  then obtain r' where r': "r' \<in> set (kept_recipients (preferSharedInbox ps) (excludeBaseUris ps) (recipients ps))"
    "href (chosen_inbox (preferSharedInbox ps) r') = k" "href (actor_id r') = href (actor_id r)"
    by (auto simp: mem_recipients_at)
  from r'(1) have in_rs: "r' \<in> set (recipients ps)"
    and kept: "\<not> excluded (excludeBaseUris ps) (chosen_inbox (preferSharedInbox ps) r')"
    by (auto simp: set_kept_recipients)
  from inj in_rs r r'(3) have "r' = r" by (meson inj_onD)
  with r'(2) kept show ?thesis by simp
qed

lemma extractInboxes_holds_kept:
  assumes "r \<in> set (kept_recipients (preferSharedInbox ps) (excludeBaseUris ps) (recipients ps))"
  shows "\<exists>ids. extractInboxes ps (href (chosen_inbox (preferSharedInbox ps) r)) = Some ids
           \<and> href (actor_id r) \<in> ids"
proof -
  let ?R = "recipients_at (preferSharedInbox ps) (excludeBaseUris ps) (recipients ps)
      (href (chosen_inbox (preferSharedInbox ps) r))"
  from assms have "href (actor_id r) \<in> ?R" by (auto simp: mem_recipients_at)
  then have "extractInboxes ps (href (chosen_inbox (preferSharedInbox ps) r)) = Some ?R
      \<and> href (actor_id r) \<in> ?R"
    by (auto simp: extractInboxes_at)
  then show ?thesis by blast
qed

lemma kept_recipients_no_exclusion: "kept_recipients prefer [] rs = rs"
  by (simp add: kept_recipients_def excluded_def)

subsection \<open>The test's recipients\<close>

lemmas test_data_simps = test_recipients_def test_alice_def test_app_def test_group_def test_service_def
  example_url_def chosen_inbox_def excluded_def kept_recipients_def

lemma test_exclude_kept:
  "kept_recipients False [example_url ''https://example.com'' ''/''] test_recipients = [test_group, test_service]"
  by (simp add: test_data_simps)

lemma test_exclude_distinct:
  "distinct (map (\<lambda>r. href (chosen_inbox False r)) test_recipients)"
  by (simp add: test_data_simps)

lemma test_shared_entries:
  "extractInboxes test_shared_parameters ''https://example.com/inbox''
     = Some {''https://example.com/alice'', ''https://example.com/app''}"
  "extractInboxes test_shared_parameters ''https://example.org/group/inbox''
     = Some {''https://example.org/group''}"
  "extractInboxes test_shared_parameters ''https://example.net/inbox''
     = Some {''https://example.net/service''}"
  "extractInboxes test_shared_parameters ''https://example.com/alice/inbox'' = None"
  "extractInboxes test_shared_parameters ''https://example.com/app/inbox'' = None"
  by (auto simp: extractInboxes_def test_shared_parameters_def test_data_simps)

subsection \<open>The two branches of sendActivity\<close>

lemma string_of_nat_500: "string_of_nat 500 = ''500''"
  by (simp add: string_of_nat.simps [of 500] string_of_nat.simps [of 50]
      string_of_nat.simps [of 5] digit_char_def)

lemma sendActivity_no_actor:
  "actorIds (activity ps) = [] \<Longrightarrow>
     sendActivity env ps issued =
       (Inl (TypeError ''The activity to send must have at least one actor property.''), issued)"
  by (simp add: sendActivity_def)

lemma sendActivity_sent:
  "actorIds (activity ps) \<noteq> [] \<Longrightarrow>
     sendActivity env ps issued =
       (if 200 \<le> status (fetch env (signed_request env ps))
           \<and> status (fetch env (signed_request env ps)) < 300
        then Inr ()
        else Inl (Error (failure_message (activity ps) (inbox ps) (fetch env (signed_request env ps)))),
        issued @ [signed_request env ps])"
  by (simp add: sendActivity_def Let_def)

lemma test_response:
  "fetch test_environment (signed_request test_environment (test_send_parameters test_activity))
     = \<lparr>status = 500, statusText = ''Internal Server Error'',
        response_text = ''something went wrong''\<rparr>"
  by (simp add: test_environment_def signed_request_def test_send_parameters_def example_url_def)

section \<open>Claims about the registry\<close>

text \<open>
  C6. Once a call of \<open>setActorDispatcher\<close> has registered the actor role, every later
  call throws \<open>RouterError\<close> (``Actor dispatcher already set.'') and leaves the registry
  as it was, so the dispatcher that the first call stored is not replaced. A call that
  returns has registered the role and stored its dispatcher. The same holds of
  \<open>setOutboxDispatcher\<close> and of \<open>setInboxListeners\<close>, each for its role.
\<close>

theorem duplicate_role_registration_fails:
  "(setActorDispatcher tparse pa da f = (Inr u, fa) \<longrightarrow>
      Router_has ''actor'' (router fa) \<and> actorDispatcher fa = Some da)
   \<and> (Router_has ''actor'' (router fa) \<longrightarrow>
      setActorDispatcher tparse pa' da' fa = (Inl (RouterError ''Actor dispatcher already set.''), fa))
   \<and> (setOutboxDispatcher tparse po do f = (Inr s, fo) \<longrightarrow>
      Router_has ''outbox'' (router fo) \<and> map_option dispatcher (outboxCallbacks fo) = Some do)
   \<and> (Router_has ''outbox'' (router fo) \<longrightarrow>
      setOutboxDispatcher tparse po' do' fo = (Inl (RouterError ''Outbox dispatcher already set.''), fo))
   \<and> (setInboxListeners tparse pi f = (Inr s', fi) \<longrightarrow> Router_has ''inbox'' (router fi))
   \<and> (Router_has ''inbox'' (router fi) \<longrightarrow>
      setInboxListeners tparse pi' fi = (Inl (RouterError ''Inbox already set.''), fi))"
proof (intro conjI impI)
  assume a: "setActorDispatcher tparse pa da f = (Inr u, fa)"
  from setActorDispatcher_Inr [OF a] show "Router_has ''actor'' (router fa)" by simp
  from setActorDispatcher_Inr [OF a] show "actorDispatcher fa = Some da" by simp
next
  assume "Router_has ''actor'' (router fa)"
  then show "setActorDispatcher tparse pa' da' fa = (Inl (RouterError ''Actor dispatcher already set.''), fa)"
    by (rule setActorDispatcher_has)
next
  assume a: "setOutboxDispatcher tparse po do f = (Inr s, fo)"
  from setOutboxDispatcher_Inr [OF a] show "Router_has ''outbox'' (router fo)" by simp
  from setOutboxDispatcher_Inr [OF a] show "map_option dispatcher (outboxCallbacks fo) = Some do" by simp
next
  assume "Router_has ''outbox'' (router fo)"
  then show "setOutboxDispatcher tparse po' do' fo = (Inl (RouterError ''Outbox dispatcher already set.''), fo)"
    by (rule setOutboxDispatcher_has)
next
  assume a: "setInboxListeners tparse pi f = (Inr s', fi)"
  from setInboxListeners_Inr [OF a] show "Router_has ''inbox'' (router fi)" by simp
next
  assume "Router_has ''inbox'' (router fi)"
  then show "setInboxListeners tparse pi' fi = (Inl (RouterError ''Inbox already set.''), fi)"
    by (rule setInboxListeners_has)
qed

theorem duplicate_role_registration_witness:
  "fst (setActorDispatcher simple_reader ''/users/{handle}'' 1 example_federation) = Inr ()
   \<and> actorDispatcher (snd (setActorDispatcher simple_reader ''/users/{handle}'' 1 example_federation)) = Some 1
   \<and> fst (setActorDispatcher simple_reader ''/actors/{handle}'' 2
        (snd (setActorDispatcher simple_reader ''/users/{handle}'' 1 example_federation)))
      = Inl (RouterError ''Actor dispatcher already set.'')
   \<and> actorDispatcher (snd (setActorDispatcher simple_reader ''/actors/{handle}'' 2
        (snd (setActorDispatcher simple_reader ''/users/{handle}'' 1 example_federation)))) = Some 1
   \<and> fst (setOutboxDispatcher simple_reader ''/users/{handle}/outbox'' 3 example_federation)
      = Inr OutboxCallbackSetters
   \<and> fst (setOutboxDispatcher simple_reader ''/actors/{handle}/outbox'' 4
        (snd (setOutboxDispatcher simple_reader ''/users/{handle}/outbox'' 3 example_federation)))
      = Inl (RouterError ''Outbox dispatcher already set.'')
   \<and> fst (setInboxListeners simple_reader ''/users/{handle}/inbox'' example_federation)
      = Inr InboxListenerSetter
   \<and> fst (setInboxListeners simple_reader ''/actors/{handle}/inbox''
        (snd (setInboxListeners simple_reader ''/users/{handle}/inbox'' example_federation)))
      = Inl (RouterError ''Inbox already set.'')"
proof -
  let ?fa = "snd (setActorDispatcher simple_reader ''/users/{handle}'' 1 example_federation)"
  let ?fo = "snd (setOutboxDispatcher simple_reader ''/users/{handle}/outbox'' 3 example_federation)"
  let ?fi = "snd (setInboxListeners simple_reader ''/users/{handle}/inbox'' example_federation)"
  have a: "setActorDispatcher simple_reader ''/users/{handle}'' 1 example_federation = (Inr (), ?fa)"
    by (simp add: example_setActorDispatcher)
  have o: "setOutboxDispatcher simple_reader ''/users/{handle}/outbox'' 3 example_federation
             = (Inr OutboxCallbackSetters, ?fo)"
    by (simp add: example_setOutboxDispatcher)
  have i: "setInboxListeners simple_reader ''/users/{handle}/inbox'' example_federation
             = (Inr InboxListenerSetter, ?fi)"
    by (simp add: example_setInboxListeners)
  note T = duplicate_role_registration_fails
    [where tparse = simple_reader and f = example_federation
       and pa = "''/users/{handle}''" and da = 1 and u = "()" and fa = ?fa
       and pa' = "''/actors/{handle}''" and da' = 2
       and po = "''/users/{handle}/outbox''" and do = 3 and s = OutboxCallbackSetters and fo = ?fo
       and po' = "''/actors/{handle}/outbox''" and do' = 4
       and pi = "''/users/{handle}/inbox''" and s' = InboxListenerSetter and fi = ?fi
       and pi' = "''/actors/{handle}/inbox''"]
  have a1: "actorDispatcher ?fa = Some 1" using T a by blast
  have a2: "setActorDispatcher simple_reader ''/actors/{handle}'' 2 ?fa
              = (Inl (RouterError ''Actor dispatcher already set.''), ?fa)"
    using T a by blast
  have o2: "setOutboxDispatcher simple_reader ''/actors/{handle}/outbox'' 4 ?fo
              = (Inl (RouterError ''Outbox dispatcher already set.''), ?fo)"
    using T o by blast
  have i2: "setInboxListeners simple_reader ''/actors/{handle}/inbox'' ?fi
              = (Inl (RouterError ''Inbox already set.''), ?fi)"
    using T i by blast
  have "fst (setActorDispatcher simple_reader ''/users/{handle}'' 1 example_federation) = Inr ()"
    by (simp add: example_setActorDispatcher)
  moreover have "fst (setOutboxDispatcher simple_reader ''/users/{handle}/outbox'' 3 example_federation)
      = Inr OutboxCallbackSetters"
    by (simp add: example_setOutboxDispatcher)
  moreover have "fst (setInboxListeners simple_reader ''/users/{handle}/inbox'' example_federation)
      = Inr InboxListenerSetter"
    by (simp add: example_setInboxListeners)
  ultimately show ?thesis by (simp only: a1 a2 o2 i2 fst_conv snd_conv simp_thms)
qed

text \<open>
  C8. A pattern whose variable set is not exactly \<open>{handle}\<close> (or that the reader
  rejects) makes \<open>setActorDispatcher\<close>, \<open>setOutboxDispatcher\<close> and
  \<open>setInboxListeners\<close> throw \<open>RouterError\<close>, and nothing is stored: the dispatcher
  slot, the outbox callbacks and the listener map stay as they were. A call that returns
  was given a pattern whose only variable is \<open>handle\<close>, and has stored its dispatcher.
\<close>

theorem registration_requires_handle_variable:
  "(template_variables tparse p \<noteq> Some {''handle''} \<longrightarrow>
      is_RouterError (fst (setActorDispatcher tparse p d f))
      \<and> actorDispatcher (snd (setActorDispatcher tparse p d f)) = actorDispatcher f
      \<and> is_RouterError (fst (setOutboxDispatcher tparse p d f))
      \<and> outboxCallbacks (snd (setOutboxDispatcher tparse p d f)) = outboxCallbacks f
      \<and> is_RouterError (fst (setInboxListeners tparse p f))
      \<and> inboxListeners (snd (setInboxListeners tparse p f)) = inboxListeners f)
   \<and> (fst (setActorDispatcher tparse q d f) = Inr u \<longrightarrow>
      template_variables tparse q = Some {''handle''}
      \<and> actorDispatcher (snd (setActorDispatcher tparse q d f)) = Some d)
   \<and> (fst (setOutboxDispatcher tparse q d f) = Inr s \<longrightarrow>
      template_variables tparse q = Some {''handle''}
      \<and> map_option dispatcher (outboxCallbacks (snd (setOutboxDispatcher tparse q d f))) = Some d)
   \<and> (fst (setInboxListeners tparse q f) = Inr s' \<longrightarrow>
      template_variables tparse q = Some {''handle''})"
proof (intro conjI impI)
  assume ne: "template_variables tparse p \<noteq> Some {''handle''}"
  have a: "is_RouterError (fst (setActorDispatcher tparse p d f))
      \<and> actorDispatcher (snd (setActorDispatcher tparse p d f)) = actorDispatcher f"
  proof (cases "Router_has ''actor'' (router f)")
    case True
    then show ?thesis by (simp add: setActorDispatcher_has)
  next
    case False
    show ?thesis
    proof (cases rule: template_variables_cases [of tparse p])
      case (invalid msg)
      with False show ?thesis
        using setActorDispatcher_invalid [where f = f and tparse = tparse and p = p and msg = msg and d = d]
        by simp
    next
      case (bad vs)
      with False show ?thesis
        using setActorDispatcher_bad [where f = f and tparse = tparse and p = p and vs = vs and d = d]
        by simp
    next
      case (good vs)
      with ne show ?thesis by simp
    qed
  qed
  have o: "is_RouterError (fst (setOutboxDispatcher tparse p d f))
      \<and> outboxCallbacks (snd (setOutboxDispatcher tparse p d f)) = outboxCallbacks f"
  proof (cases "Router_has ''outbox'' (router f)")
    case True
    then show ?thesis by (simp add: setOutboxDispatcher_has)
  next
    case False
    show ?thesis
    proof (cases rule: template_variables_cases [of tparse p])
      case (invalid msg)
      with False show ?thesis
        using setOutboxDispatcher_invalid [where f = f and tparse = tparse and p = p and msg = msg and d = d]
        by simp
    next
      case (bad vs)
      with False show ?thesis
        using setOutboxDispatcher_bad [where f = f and tparse = tparse and p = p and vs = vs and d = d]
        by simp
    next
      case (good vs)
      with ne show ?thesis by simp
    qed
  qed
  have i: "is_RouterError (fst (setInboxListeners tparse p f))
      \<and> inboxListeners (snd (setInboxListeners tparse p f)) = inboxListeners f"
  proof (cases "Router_has ''inbox'' (router f)")
    case True
    then show ?thesis by (simp add: setInboxListeners_has)
  next
    case False
    show ?thesis
    proof (cases rule: template_variables_cases [of tparse p])
      case (invalid msg)
      with False show ?thesis
        using setInboxListeners_invalid [where f = f and tparse = tparse and p = p and msg = msg]
        by simp
    next
      case (bad vs)
      with False show ?thesis
        using setInboxListeners_bad [where f = f and tparse = tparse and p = p and vs = vs]
        by simp
    next
      case (good vs)
      with ne show ?thesis by simp
    qed
  qed
  from a show "is_RouterError (fst (setActorDispatcher tparse p d f))" by simp
  from a show "actorDispatcher (snd (setActorDispatcher tparse p d f)) = actorDispatcher f" by simp
  from o show "is_RouterError (fst (setOutboxDispatcher tparse p d f))" by simp
  from o show "outboxCallbacks (snd (setOutboxDispatcher tparse p d f)) = outboxCallbacks f" by simp
  from i show "is_RouterError (fst (setInboxListeners tparse p f))" by simp
  from i show "inboxListeners (snd (setInboxListeners tparse p f)) = inboxListeners f" by simp
next
  assume "fst (setActorDispatcher tparse q d f) = Inr u"
  then have e: "setActorDispatcher tparse q d f = (Inr u, snd (setActorDispatcher tparse q d f))"
    by (metis prod.collapse)
  from setActorDispatcher_Inr [OF e] show "template_variables tparse q = Some {''handle''}" by simp
  from setActorDispatcher_Inr [OF e]
  show "actorDispatcher (snd (setActorDispatcher tparse q d f)) = Some d" by simp
next
  assume "fst (setOutboxDispatcher tparse q d f) = Inr s"
  then have e: "setOutboxDispatcher tparse q d f = (Inr s, snd (setOutboxDispatcher tparse q d f))"
    by (metis prod.collapse)
  from setOutboxDispatcher_Inr [OF e] show "template_variables tparse q = Some {''handle''}" by simp
  from setOutboxDispatcher_Inr [OF e]
  show "map_option dispatcher (outboxCallbacks (snd (setOutboxDispatcher tparse q d f))) = Some d"
    by simp
next
  assume "fst (setInboxListeners tparse q f) = Inr s'"
  then have e: "setInboxListeners tparse q f = (Inr s', snd (setInboxListeners tparse q f))"
    by (metis prod.collapse)
  from setInboxListeners_Inr [OF e] show "template_variables tparse q = Some {''handle''}" by simp
qed

theorem registration_requires_handle_variable_witness:
  "template_variables simple_reader ''/users'' = Some {}
   \<and> is_RouterError (fst (setActorDispatcher simple_reader ''/users'' 1 example_federation))
   \<and> actorDispatcher (snd (setActorDispatcher simple_reader ''/users'' 1 example_federation)) = None
   \<and> is_RouterError (fst (setOutboxDispatcher simple_reader ''/users'' 1 example_federation))
   \<and> outboxCallbacks (snd (setOutboxDispatcher simple_reader ''/users'' 1 example_federation)) = None
   \<and> is_RouterError (fst (setInboxListeners simple_reader ''/users'' example_federation))
   \<and> fst (setActorDispatcher simple_reader ''/users/{handle}'' 1 example_federation) = Inr ()
   \<and> template_variables simple_reader ''/users/{handle}'' = Some {''handle''}
   \<and> actorDispatcher (snd (setActorDispatcher simple_reader ''/users/{handle}'' 1 example_federation))
       = Some 1"
proof -
  note T = registration_requires_handle_variable
    [where tparse = simple_reader and f = example_federation and p = "''/users''" and d = 1
       and q = "''/users/{handle}''" and u = "()"]
  have ne: "template_variables simple_reader ''/users'' \<noteq> Some {''handle''}"
    by (simp add: template_variables_examples)
  have ok: "fst (setActorDispatcher simple_reader ''/users/{handle}'' 1 example_federation) = Inr ()"
    by (simp add: example_setActorDispatcher)
  have none: "actorDispatcher example_federation = None" "outboxCallbacks example_federation = None"
    by (simp_all add: example_federation_def)
  have bad: "is_RouterError (fst (setActorDispatcher simple_reader ''/users'' 1 example_federation))
      \<and> actorDispatcher (snd (setActorDispatcher simple_reader ''/users'' 1 example_federation))
          = actorDispatcher example_federation
      \<and> is_RouterError (fst (setOutboxDispatcher simple_reader ''/users'' 1 example_federation))
      \<and> outboxCallbacks (snd (setOutboxDispatcher simple_reader ''/users'' 1 example_federation))
          = outboxCallbacks example_federation
      \<and> is_RouterError (fst (setInboxListeners simple_reader ''/users'' example_federation))"
    using T ne by blast
  have good: "template_variables simple_reader ''/users/{handle}'' = Some {''handle''}
      \<and> actorDispatcher (snd (setActorDispatcher simple_reader ''/users/{handle}'' 1 example_federation))
          = Some 1"
    using T ok by blast
  show ?thesis using bad good ok none by (simp add: template_variables_examples)
qed

text \<open>
  C10. The setters are not atomic. When the role is free and the pattern is readable
  but its variable set is not \<open>{handle}\<close>, \<open>setActorDispatcher\<close> throws the error of
  the variable check after the route has been added: the role is registered, the
  dispatcher slot is as before, and every later call of the setter, whatever its
  pattern, throws ``already set'' and changes nothing. The same holds of
  \<open>setOutboxDispatcher\<close> and \<open>setInboxListeners\<close>.
\<close>

theorem failed_check_leaves_role_registered:
  "(\<not> Router_has ''actor'' (router f) \<and> template_variables tparse p = Some vs \<and> vs \<noteq> {''handle''} \<longrightarrow>
      fst (setActorDispatcher tparse p d f)
        = Inl (RouterError ''Path for actor dispatcher must have one variable: {handle}'')
      \<and> Router_has ''actor'' (router (snd (setActorDispatcher tparse p d f)))
      \<and> actorDispatcher (snd (setActorDispatcher tparse p d f)) = actorDispatcher f
      \<and> (\<forall>p' d'. setActorDispatcher tparse p' d' (snd (setActorDispatcher tparse p d f))
            = (Inl (RouterError ''Actor dispatcher already set.''),
               snd (setActorDispatcher tparse p d f))))
   \<and> (\<not> Router_has ''outbox'' (router f) \<and> template_variables tparse p = Some vs \<and> vs \<noteq> {''handle''} \<longrightarrow>
      fst (setOutboxDispatcher tparse p d f)
        = Inl (RouterError ''Path for outbox dispatcher must have one variable: {handle}'')
      \<and> Router_has ''outbox'' (router (snd (setOutboxDispatcher tparse p d f)))
      \<and> outboxCallbacks (snd (setOutboxDispatcher tparse p d f)) = outboxCallbacks f
      \<and> (\<forall>p' d'. setOutboxDispatcher tparse p' d' (snd (setOutboxDispatcher tparse p d f))
            = (Inl (RouterError ''Outbox dispatcher already set.''),
               snd (setOutboxDispatcher tparse p d f))))
   \<and> (\<not> Router_has ''inbox'' (router f) \<and> template_variables tparse p = Some vs \<and> vs \<noteq> {''handle''} \<longrightarrow>
      fst (setInboxListeners tparse p f)
        = Inl (RouterError ''Path for inbox must have one variable: {handle}'')
      \<and> Router_has ''inbox'' (router (snd (setInboxListeners tparse p f)))
      \<and> inboxListeners (snd (setInboxListeners tparse p f)) = inboxListeners f
      \<and> (\<forall>p'. setInboxListeners tparse p' (snd (setInboxListeners tparse p f))
            = (Inl (RouterError ''Inbox already set.''), snd (setInboxListeners tparse p f))))"
proof (intro conjI impI allI; elim conjE)
  assume h: "\<not> Router_has ''actor'' (router f)" "template_variables tparse p = Some vs"
    "vs \<noteq> {''handle''}"
  then obtain xs where xs: "tparse p = Inr xs" "bad_variables (set xs)"
    by (cases rule: template_variables_cases [of tparse p]) auto
  note e = setActorDispatcher_bad [where f = f and tparse = tparse and p = p and vs = xs and d = d,
      OF h(1) xs]
  show "fst (setActorDispatcher tparse p d f)
        = Inl (RouterError ''Path for actor dispatcher must have one variable: {handle}'')"
    by (simp add: e)
  show r: "Router_has ''actor'' (router (snd (setActorDispatcher tparse p d f)))"
    by (simp add: e Router_has_added)
  show "actorDispatcher (snd (setActorDispatcher tparse p d f)) = actorDispatcher f"
    by (simp add: e)
  fix p' d'
  show "setActorDispatcher tparse p' d' (snd (setActorDispatcher tparse p d f))
            = (Inl (RouterError ''Actor dispatcher already set.''),
               snd (setActorDispatcher tparse p d f))"
    using r by (rule setActorDispatcher_has)
next
  assume h: "\<not> Router_has ''outbox'' (router f)" "template_variables tparse p = Some vs"
    "vs \<noteq> {''handle''}"
  then obtain xs where xs: "tparse p = Inr xs" "bad_variables (set xs)"
    by (cases rule: template_variables_cases [of tparse p]) auto
  note e = setOutboxDispatcher_bad [where f = f and tparse = tparse and p = p and vs = xs and d = d,
      OF h(1) xs]
  show "fst (setOutboxDispatcher tparse p d f)
        = Inl (RouterError ''Path for outbox dispatcher must have one variable: {handle}'')"
    by (simp add: e)
  show r: "Router_has ''outbox'' (router (snd (setOutboxDispatcher tparse p d f)))"
    by (simp add: e Router_has_added)
  show "outboxCallbacks (snd (setOutboxDispatcher tparse p d f)) = outboxCallbacks f"
    by (simp add: e)
  fix p' d'
  show "setOutboxDispatcher tparse p' d' (snd (setOutboxDispatcher tparse p d f))
            = (Inl (RouterError ''Outbox dispatcher already set.''),
               snd (setOutboxDispatcher tparse p d f))"
    using r by (rule setOutboxDispatcher_has)
next
  assume h: "\<not> Router_has ''inbox'' (router f)" "template_variables tparse p = Some vs"
    "vs \<noteq> {''handle''}"
  then obtain xs where xs: "tparse p = Inr xs" "bad_variables (set xs)"
    by (cases rule: template_variables_cases [of tparse p]) auto
  note e = setInboxListeners_bad [where f = f and tparse = tparse and p = p and vs = xs,
      OF h(1) xs]
  show "fst (setInboxListeners tparse p f)
        = Inl (RouterError ''Path for inbox must have one variable: {handle}'')"
    by (simp add: e)
  show r: "Router_has ''inbox'' (router (snd (setInboxListeners tparse p f)))"
    by (simp add: e Router_has_added)
  show "inboxListeners (snd (setInboxListeners tparse p f)) = inboxListeners f"
    by (simp add: e)
  fix p'
  show "setInboxListeners tparse p' (snd (setInboxListeners tparse p f))
            = (Inl (RouterError ''Inbox already set.''), snd (setInboxListeners tparse p f))"
    using r by (rule setInboxListeners_has)
qed

theorem failed_check_leaves_role_registered_witness:
  "fst (setActorDispatcher simple_reader ''/users'' 1 example_federation)
     = Inl (RouterError ''Path for actor dispatcher must have one variable: {handle}'')
   \<and> actorDispatcher (snd (setActorDispatcher simple_reader ''/users'' 1 example_federation)) = None
   \<and> fst (setActorDispatcher simple_reader ''/users/{handle}'' 2
        (snd (setActorDispatcher simple_reader ''/users'' 1 example_federation)))
     = Inl (RouterError ''Actor dispatcher already set.'')
   \<and> actorDispatcher (snd (setActorDispatcher simple_reader ''/users/{handle}'' 2
        (snd (setActorDispatcher simple_reader ''/users'' 1 example_federation)))) = None
   \<and> fst (setOutboxDispatcher simple_reader ''/users'' 1 example_federation)
     = Inl (RouterError ''Path for outbox dispatcher must have one variable: {handle}'')
   \<and> fst (setOutboxDispatcher simple_reader ''/users/{handle}'' 2
        (snd (setOutboxDispatcher simple_reader ''/users'' 1 example_federation)))
     = Inl (RouterError ''Outbox dispatcher already set.'')
   \<and> outboxCallbacks (snd (setOutboxDispatcher simple_reader ''/users/{handle}'' 2
        (snd (setOutboxDispatcher simple_reader ''/users'' 1 example_federation)))) = None
   \<and> fst (setInboxListeners simple_reader ''/users'' example_federation)
     = Inl (RouterError ''Path for inbox must have one variable: {handle}'')
   \<and> fst (setInboxListeners simple_reader ''/users/{handle}''
        (snd (setInboxListeners simple_reader ''/users'' example_federation)))
     = Inl (RouterError ''Inbox already set.'')"
proof -
  note T = failed_check_leaves_role_registered
    [where tparse = simple_reader and f = example_federation and p = "''/users''" and d = 1
       and vs = "{}"]
  have h: "\<not> Router_has ''actor'' (router example_federation)"
    "\<not> Router_has ''outbox'' (router example_federation)"
    "\<not> Router_has ''inbox'' (router example_federation)"
    "template_variables simple_reader ''/users'' = Some {}"
    "({} :: string set) \<noteq> {''handle''}"
    by (simp_all add: example_has template_variables_examples)
  let ?fa = "snd (setActorDispatcher simple_reader ''/users'' 1 example_federation)"
  let ?fo = "snd (setOutboxDispatcher simple_reader ''/users'' 1 example_federation)"
  let ?fi = "snd (setInboxListeners simple_reader ''/users'' example_federation)"
  have a: "fst (setActorDispatcher simple_reader ''/users'' 1 example_federation)
        = Inl (RouterError ''Path for actor dispatcher must have one variable: {handle}'')"
    "actorDispatcher ?fa = actorDispatcher example_federation"
    "setActorDispatcher simple_reader ''/users/{handle}'' 2 ?fa
        = (Inl (RouterError ''Actor dispatcher already set.''), ?fa)"
    using T h by blast+
  have o: "fst (setOutboxDispatcher simple_reader ''/users'' 1 example_federation)
        = Inl (RouterError ''Path for outbox dispatcher must have one variable: {handle}'')"
    "outboxCallbacks ?fo = outboxCallbacks example_federation"
    "setOutboxDispatcher simple_reader ''/users/{handle}'' 2 ?fo
        = (Inl (RouterError ''Outbox dispatcher already set.''), ?fo)"
    using T h by blast+
  have i: "fst (setInboxListeners simple_reader ''/users'' example_federation)
        = Inl (RouterError ''Path for inbox must have one variable: {handle}'')"
    "setInboxListeners simple_reader ''/users/{handle}'' ?fi
        = (Inl (RouterError ''Inbox already set.''), ?fi)"
    using T h by blast+
  have none: "actorDispatcher example_federation = None" "outboxCallbacks example_federation = None"
    by (simp_all add: example_federation_def)
  show ?thesis by (simp only: a o i none fst_conv snd_conv simp_thms)
qed

text \<open>
  C7. On the setter that \<open>setInboxListeners\<close> returns, \<open>on(type, listener)\<close> throws
  \<open>TypeError\<close> when the listener map already has a listener for that very type, and
  the registry, the existing listener included, stays as it was. When the type has no
  listener yet, the call stores the listener under the type and returns the setter
  itself, the object that \<open>setInboxListeners\<close> returned.
\<close>

theorem on_registers_one_listener_per_type:
  "(type \<in> dom (inboxListeners f) \<longrightarrow>
      on type l f = (Inl (TypeError ''Listener already set for this type.''), f)
      \<and> is_TypeError (fst (on type l f))
      \<and> inboxListeners (snd (on type l f)) = inboxListeners f)
   \<and> (type' \<notin> dom (inboxListeners f) \<longrightarrow>
      on type' l f = (Inr InboxListenerSetter, f\<lparr>inboxListeners := (inboxListeners f)(type' \<mapsto> l)\<rparr>)
      \<and> inboxListeners (snd (on type' l f)) type' = Some l
      \<and> (\<forall>setter. fst (setInboxListeners tparse p f0) = Inr setter \<longrightarrow>
            fst (on type' l f) = Inr setter))"
proof (intro conjI impI allI)
  assume "type \<in> dom (inboxListeners f)"
  then show e: "on type l f = (Inl (TypeError ''Listener already set for this type.''), f)"
    by (auto simp: on_def)
  show "is_TypeError (fst (on type l f))" by (simp add: e)
  show "inboxListeners (snd (on type l f)) = inboxListeners f" by (simp add: e)
next
  assume "type' \<notin> dom (inboxListeners f)"
  then show e: "on type' l f
      = (Inr InboxListenerSetter, f\<lparr>inboxListeners := (inboxListeners f)(type' \<mapsto> l)\<rparr>)"
    by (auto simp: on_def)
  show "inboxListeners (snd (on type' l f)) type' = Some l" by (simp add: e)
  fix setter
  show "fst (on type' l f) = Inr setter" by (cases setter) (simp add: e)
qed

theorem on_registers_one_listener_per_type_witness:
  "fst (setInboxListeners simple_reader ''/users/{handle}/inbox'' example_federation)
     = Inr InboxListenerSetter
   \<and> on ''Follow'' 6 example_inbox_federation
     = (Inl (TypeError ''Listener already set for this type.''), example_inbox_federation)
   \<and> inboxListeners (snd (on ''Follow'' 6 example_inbox_federation)) ''Follow'' = Some 5
   \<and> fst (on ''Create'' 6 example_inbox_federation) = Inr InboxListenerSetter
   \<and> inboxListeners (snd (on ''Create'' 6 example_inbox_federation)) ''Create'' = Some 6
   \<and> inboxListeners (snd (on ''Create'' 6 example_inbox_federation)) ''Follow'' = Some 5"
proof -
  note T = on_registers_one_listener_per_type
    [where f = example_inbox_federation and type = "''Follow''" and type' = "''Create''" and l = 6
       and tparse = simple_reader and p = "''/users/{handle}/inbox''" and ?f0.0 = example_federation]
  have h: "''Follow'' \<in> dom (inboxListeners example_inbox_federation)"
    "''Create'' \<notin> dom (inboxListeners example_inbox_federation)"
    by (simp_all add: example_inbox_federation_def)
  have s: "fst (setInboxListeners simple_reader ''/users/{handle}/inbox'' example_federation)
     = Inr InboxListenerSetter"
    by (simp add: example_setInboxListeners)
  have 1: "on ''Follow'' 6 example_inbox_federation
     = (Inl (TypeError ''Listener already set for this type.''), example_inbox_federation)"
    using T h by blast
  have 2: "on ''Create'' 6 example_inbox_federation
     = (Inr InboxListenerSetter,
        example_inbox_federation
          \<lparr>inboxListeners := (inboxListeners example_inbox_federation)(''Create'' \<mapsto> 6)\<rparr>)"
    using T h by blast
  have 3: "fst (on ''Create'' 6 example_inbox_federation) = Inr InboxListenerSetter"
    using T h s by blast
  show ?thesis by (simp add: s 1 2) (simp add: example_inbox_federation_def)
qed

text \<open>
  C9. When the router finds no route for the path of the request, \<open>handle\<close> returns
  what \<open>onNotFound\<close> returns for the request, as it is. When the route found has a
  role other than webfinger, actor, outbox and inbox, \<open>handle\<close> returns what
  \<open>onNotFound\<close> returns as well.
\<close>

theorem handle_not_found:
  "(Router_route tmatch (pathname (url request)) (router f) = None \<longrightarrow>
      handle tmatch hs request ps f = onNotFound ps request)
   \<and> (Router_route tmatch (pathname (url request')) (router f) = Some route
       \<and> name route \<notin> {''webfinger'', ''actor'', ''outbox'', ''inbox''} \<longrightarrow>
      handle tmatch hs request' ps f = onNotFound ps request')"
  by (simp add: handle_def)

theorem handle_not_found_witness:
  "handle literal_matcher example_handlers (example_request ''/nowhere'') example_parameters
       example_followers_federation = ''not found: /nowhere''
   \<and> handle literal_matcher example_handlers (example_request ''/followers'') example_parameters
       example_followers_federation = ''not found: /followers''
   \<and> handle literal_matcher example_handlers (example_request ''/.well-known/webfinger'')
       example_parameters example_followers_federation = ''webfinger response''"
proof -
  note T = handle_not_found
    [where tmatch = literal_matcher and f = example_followers_federation
       and request = "example_request ''/nowhere''" and request' = "example_request ''/followers''"
       and route = "\<lparr>name = ''followers'', values = Map.empty\<rparr>"
       and hs = example_handlers and ps = example_parameters]
  have p: "pathname (url (example_request ''/nowhere'')) = ''/nowhere''"
    "pathname (url (example_request ''/followers'')) = ''/followers''"
    by (simp_all add: example_request_def)
  have h: "Router_route literal_matcher (pathname (url (example_request ''/nowhere'')))
      (router example_followers_federation) = None"
    "Router_route literal_matcher (pathname (url (example_request ''/followers'')))
      (router example_followers_federation) = Some \<lparr>name = ''followers'', values = Map.empty\<rparr>"
    "name \<lparr>name = ''followers'', values = Map.empty\<rparr> \<notin> {''webfinger'', ''actor'', ''outbox'', ''inbox''}"
    by (simp_all add: p example_routes)
  have 1: "handle literal_matcher example_handlers (example_request ''/nowhere'') example_parameters
       example_followers_federation = onNotFound example_parameters (example_request ''/nowhere'')"
    using T h by blast
  have 2: "handle literal_matcher example_handlers (example_request ''/followers'') example_parameters
       example_followers_federation = onNotFound example_parameters (example_request ''/followers'')"
    using T h by blast
  have 3: "handle literal_matcher example_handlers (example_request ''/.well-known/webfinger'')
       example_parameters example_followers_federation = ''webfinger response''"
    by (simp add: handle_def Router_route_def literal_matcher_def example_followers_federation_def
        example_request_def example_handlers_def)
  show ?thesis by (simp add: 1 2 3) (simp add: example_parameters_def example_request_def)
qed

text \<open>
  C5, as the code has it. The claim that a second call of \<open>setCounter\<close>,
  \<open>setFirstCursor\<close> or \<open>setLastCursor\<close> on the chain fails does not hold: the three
  methods are plain assignments. Each call returns the chain and stores the given
  callback in its own slot, whatever the slot held, and a second call replaces what the
  first one stored.
\<close>

theorem chain_setters_overwrite:
  "setCounter c callbacks = (Inr OutboxCallbackSetters, callbacks\<lparr>counter := Some c\<rparr>)
   \<and> setFirstCursor c callbacks = (Inr OutboxCallbackSetters, callbacks\<lparr>firstCursor := Some c\<rparr>)
   \<and> setLastCursor c callbacks = (Inr OutboxCallbackSetters, callbacks\<lparr>lastCursor := Some c\<rparr>)
   \<and> counter (snd (setCounter c' (snd (setCounter c callbacks)))) = Some c'
   \<and> firstCursor (snd (setFirstCursor c' (snd (setFirstCursor c callbacks)))) = Some c'
   \<and> lastCursor (snd (setLastCursor c' (snd (setLastCursor c callbacks)))) = Some c'"
  by (simp add: setCounter_def setFirstCursor_def setLastCursor_def)

text \<open>
  C5, the claim refuted: on the callbacks object of a fresh
  \<open>setOutboxDispatcher("/users/{handle}/outbox", 7)\<close>, \<open>setCounter(1)\<close> and then
  \<open>setCounter(2)\<close> both return the chain, and the counter is then 2: the second call
  has overwritten the first callback. Likewise for the two cursors.
\<close>

theorem chain_setter_second_call_counterexample:
  "outboxCallbacks (snd (setOutboxDispatcher simple_reader ''/users/{handle}/outbox'' 7 example_federation))
     = Some example_callbacks
   \<and> counter (snd (setCounter 1 example_callbacks)) = Some 1
   \<and> fst (setCounter 2 (snd (setCounter 1 example_callbacks))) = Inr OutboxCallbackSetters
   \<and> counter (snd (setCounter 2 (snd (setCounter 1 example_callbacks)))) = Some 2
   \<and> fst (setFirstCursor 2 (snd (setFirstCursor 1 example_callbacks))) = Inr OutboxCallbackSetters
   \<and> firstCursor (snd (setFirstCursor 2 (snd (setFirstCursor 1 example_callbacks)))) = Some 2
   \<and> fst (setLastCursor 2 (snd (setLastCursor 1 example_callbacks))) = Inr OutboxCallbackSetters
   \<and> lastCursor (snd (setLastCursor 2 (snd (setLastCursor 1 example_callbacks)))) = Some 2"
  by (simp add: example_setOutboxDispatcher setCounter_def setFirstCursor_def setLastCursor_def
      example_callbacks_def)

section \<open>Claims about the send pipeline\<close>

text \<open>
  C1. Take a list of recipients whose inboxes, the inbox chosen for each (its personal
  inbox, unless \<open>preferSharedInbox\<close> picks its shared one), are pairwise distinct. Then
  the mapping that \<open>extractInboxes\<close> returns has exactly one entry for each inbox of a
  recipient that is not excluded, as many entries as there are such recipients; the
  entry of such a recipient holds its identifier alone; the union of the sets of the
  mapping is the set of the identifiers of the recipients that are not excluded; and a
  recipient whose chosen inbox has the origin of a URI of \<open>excludeBaseUris\<close> has no
  entry. When the identifiers are pairwise distinct too, an identifier found in the
  mapping stands under the inbox of its recipient and nowhere else, and that recipient
  is not excluded.
\<close>

theorem extractInboxes_distinct_inboxes:
  assumes d: "distinct (map (\<lambda>r. href (chosen_inbox (preferSharedInbox ps) r)) (recipients ps))"
  shows "dom (extractInboxes ps) =
           (\<lambda>r. href (chosen_inbox (preferSharedInbox ps) r)) `
             set (kept_recipients (preferSharedInbox ps) (excludeBaseUris ps) (recipients ps))
    \<and> card (dom (extractInboxes ps)) =
           length (kept_recipients (preferSharedInbox ps) (excludeBaseUris ps) (recipients ps))
    \<and> (\<forall>r \<in> set (kept_recipients (preferSharedInbox ps) (excludeBaseUris ps) (recipients ps)).
           extractInboxes ps (href (chosen_inbox (preferSharedInbox ps) r)) = Some {href (actor_id r)})
    \<and> \<Union> (ran (extractInboxes ps)) =
           (\<lambda>r. href (actor_id r)) `
             set (kept_recipients (preferSharedInbox ps) (excludeBaseUris ps) (recipients ps))
    \<and> (\<forall>r \<in> set (recipients ps).
           excluded (excludeBaseUris ps) (chosen_inbox (preferSharedInbox ps) r) \<longrightarrow>
           extractInboxes ps (href (chosen_inbox (preferSharedInbox ps) r)) = None)
    \<and> (distinct (map (\<lambda>r. href (actor_id r)) (recipients ps)) \<longrightarrow>
         (\<forall>r \<in> set (recipients ps). \<forall>k s.
            extractInboxes ps k = Some s \<and> href (actor_id r) \<in> s \<longrightarrow>
            k = href (chosen_inbox (preferSharedInbox ps) r)
            \<and> \<not> excluded (excludeBaseUris ps) (chosen_inbox (preferSharedInbox ps) r)))"
proof -
  let ?prefer = "preferSharedInbox ps" and ?ex = "excludeBaseUris ps" and ?rs = "recipients ps"
  let ?kept = "kept_recipients ?prefer ?ex ?rs"
  let ?key = "\<lambda>r. href (chosen_inbox ?prefer r)"
  have dom: "dom (extractInboxes ps) = ?key ` set ?kept" by (rule dom_extractInboxes)
  have dk: "distinct (map ?key ?kept)" using d by (rule distinct_chosen_kept)
  have "card (?key ` set ?kept) = length (map ?key ?kept)"
    using distinct_card [OF dk] by simp
  then have card: "card (dom (extractInboxes ps)) = length ?kept" by (simp add: dom)
  have single: "\<forall>r \<in> set ?kept. extractInboxes ps (?key r) = Some {href (actor_id r)}"
  proof
    fix r assume "r \<in> set ?kept"
    from recipients_at_single [OF d this] show "extractInboxes ps (?key r) = Some {href (actor_id r)}"
      by (simp add: extractInboxes_at)
  qed
  have union: "\<Union> (ran (extractInboxes ps)) = (\<lambda>r. href (actor_id r)) ` set ?kept"
    by (rule Union_ran_extractInboxes)
  have absent: "\<forall>r \<in> set ?rs. excluded ?ex (chosen_inbox ?prefer r) \<longrightarrow>
      extractInboxes ps (?key r) = None"
  proof (intro ballI impI)
    fix r assume r: "r \<in> set ?rs" and e: "excluded ?ex (chosen_inbox ?prefer r)"
    from d have inj: "inj_on ?key (set ?rs)" by (simp add: distinct_map)
    have "?key r \<notin> ?key ` set ?kept"
    proof
      assume "?key r \<in> ?key ` set ?kept"
      then obtain r' where r': "r' \<in> set ?kept" "?key r' = ?key r" by auto
      from r'(1) have "r' \<in> set ?rs" and ne: "\<not> excluded ?ex (chosen_inbox ?prefer r')"
        by (auto simp: set_kept_recipients)
      with inj r r'(2) have "r' = r" by (meson inj_onD)
      with ne e show False by simp
    qed
    then show "extractInboxes ps (?key r) = None"
      by (simp add: extractInboxes_at recipients_at_empty_iff)
  qed
  have once: "distinct (map (\<lambda>r. href (actor_id r)) ?rs) \<longrightarrow>
         (\<forall>r \<in> set ?rs. \<forall>k s.
            extractInboxes ps k = Some s \<and> href (actor_id r) \<in> s \<longrightarrow>
            k = ?key r \<and> \<not> excluded ?ex (chosen_inbox ?prefer r))"
    using extractInboxes_key_of_id by blast
  from dom card single union absent once show ?thesis by blast
qed

theorem extractInboxes_distinct_inboxes_witness:
  "card (dom (extractInboxes test_exclude_parameters)) = 2
   \<and> extractInboxes test_exclude_parameters ''https://example.org/group/inbox''
       = Some {''https://example.org/group''}
   \<and> extractInboxes test_exclude_parameters ''https://example.net/service/inbox''
       = Some {''https://example.net/service''}
   \<and> extractInboxes test_exclude_parameters ''https://example.com/alice/inbox'' = None
   \<and> extractInboxes test_exclude_parameters ''https://example.com/app/inbox'' = None
   \<and> \<Union> (ran (extractInboxes test_exclude_parameters))
       = {''https://example.org/group'', ''https://example.net/service''}"
proof -
  have ps: "preferSharedInbox test_exclude_parameters = False"
    "excludeBaseUris test_exclude_parameters = [example_url ''https://example.com'' ''/'']"
    "recipients test_exclude_parameters = test_recipients"
    by (simp_all add: test_exclude_parameters_def)
  have d: "distinct (map (\<lambda>r. href (chosen_inbox (preferSharedInbox test_exclude_parameters) r))
      (recipients test_exclude_parameters))"
    by (simp add: ps test_exclude_distinct)
  note T = extractInboxes_distinct_inboxes [OF d, unfolded ps test_exclude_kept]
  have c: "card (dom (extractInboxes test_exclude_parameters)) = 2"
    using T [THEN conjunct2, THEN conjunct1] by simp
  have g: "extractInboxes test_exclude_parameters (href (chosen_inbox False test_group))
       = Some {href (actor_id test_group)}"
    and s: "extractInboxes test_exclude_parameters (href (chosen_inbox False test_service))
       = Some {href (actor_id test_service)}"
    using T by simp_all
  have u: "\<Union> (ran (extractInboxes test_exclude_parameters))
       = (\<lambda>r. href (actor_id r)) ` set [test_group, test_service]"
    using T by blast
  have "test_alice \<in> set test_recipients" "test_app \<in> set test_recipients"
    "excluded [example_url ''https://example.com'' ''/''] (chosen_inbox False test_alice)"
    "excluded [example_url ''https://example.com'' ''/''] (chosen_inbox False test_app)"
    by (simp_all add: test_data_simps)
  with T have a: "extractInboxes test_exclude_parameters (href (chosen_inbox False test_alice)) = None"
    and b: "extractInboxes test_exclude_parameters (href (chosen_inbox False test_app)) = None"
    by blast+
  from c g s a b u show ?thesis
    by (simp add: test_alice_def test_app_def test_group_def test_service_def example_url_def chosen_inbox_def insert_commute)
qed

text \<open>
  C2. With \<open>preferSharedInbox\<close> set, every recipient that is not excluded and declares
  a shared inbox has its identifier in the entry of that shared inbox, and one that
  declares none has it in the entry of its personal inbox. The entry of a shared inbox
  holds the identifiers of all the recipients that declare it, whatever their personal
  inboxes. Without \<open>excludeBaseUris\<close> no recipient is excluded. When the identifiers
  are pairwise distinct, an identifier stands under the chosen inbox only, so not under
  the personal inbox of a recipient that declares a different shared one.
\<close>

theorem prefer_shared_inbox_groups:
  assumes shared_preferred: "preferSharedInbox ps"
  shows "(\<forall>r \<in> set (kept_recipients True (excludeBaseUris ps) (recipients ps)). \<forall>shared.
            sharedInbox r = Some shared \<longrightarrow>
            (\<exists>ids. extractInboxes ps (href shared) = Some ids \<and> href (actor_id r) \<in> ids))
    \<and> (\<forall>r \<in> set (kept_recipients True (excludeBaseUris ps) (recipients ps)).
            sharedInbox r = None \<longrightarrow>
            (\<exists>ids. extractInboxes ps (href (actor_inbox r)) = Some ids \<and> href (actor_id r) \<in> ids))
    \<and> (\<forall>shared ids. extractInboxes ps (href shared) = Some ids \<longrightarrow>
          (\<forall>r \<in> set (kept_recipients True (excludeBaseUris ps) (recipients ps)).
             sharedInbox r = Some shared \<longrightarrow> href (actor_id r) \<in> ids))
    \<and> (excludeBaseUris ps = [] \<longrightarrow>
          kept_recipients True (excludeBaseUris ps) (recipients ps) = recipients ps)
    \<and> (distinct (map (\<lambda>r. href (actor_id r)) (recipients ps)) \<longrightarrow>
          (\<forall>r \<in> set (recipients ps). \<forall>k ids.
             extractInboxes ps k = Some ids \<and> href (actor_id r) \<in> ids \<longrightarrow>
             k = href (chosen_inbox True r)))"
proof -
  let ?kept = "kept_recipients True (excludeBaseUris ps) (recipients ps)"
  from shared_preferred have p: "preferSharedInbox ps = True" by simp
  have held: "\<And>r. r \<in> set ?kept \<Longrightarrow>
      \<exists>ids. extractInboxes ps (href (chosen_inbox True r)) = Some ids \<and> href (actor_id r) \<in> ids"
    using extractInboxes_holds_kept [of _ ps] by (simp add: p)
  have 1: "\<forall>r \<in> set ?kept. \<forall>shared. sharedInbox r = Some shared \<longrightarrow>
            (\<exists>ids. extractInboxes ps (href shared) = Some ids \<and> href (actor_id r) \<in> ids)"
  proof (intro ballI allI impI)
    fix r shared assume "r \<in> set ?kept" "sharedInbox r = Some shared"
    with held [of r] show "\<exists>ids. extractInboxes ps (href shared) = Some ids \<and> href (actor_id r) \<in> ids"
      by (simp add: chosen_inbox_def)
  qed
  have 2: "\<forall>r \<in> set ?kept. sharedInbox r = None \<longrightarrow>
            (\<exists>ids. extractInboxes ps (href (actor_inbox r)) = Some ids \<and> href (actor_id r) \<in> ids)"
  proof (intro ballI impI)
    fix r assume "r \<in> set ?kept" "sharedInbox r = None"
    with held [of r]
    show "\<exists>ids. extractInboxes ps (href (actor_inbox r)) = Some ids \<and> href (actor_id r) \<in> ids"
      by (simp add: chosen_inbox_def)
  qed
  have 3: "\<forall>shared ids. extractInboxes ps (href shared) = Some ids \<longrightarrow>
          (\<forall>r \<in> set ?kept. sharedInbox r = Some shared \<longrightarrow> href (actor_id r) \<in> ids)"
    using 1 by fastforce
  have 4: "excludeBaseUris ps = [] \<longrightarrow> ?kept = recipients ps"
    by (simp add: kept_recipients_no_exclusion)
  have 5: "distinct (map (\<lambda>r. href (actor_id r)) (recipients ps)) \<longrightarrow>
          (\<forall>r \<in> set (recipients ps). \<forall>k ids.
             extractInboxes ps k = Some ids \<and> href (actor_id r) \<in> ids \<longrightarrow>
             k = href (chosen_inbox True r))"
    using extractInboxes_key_of_id [where ps = ps] by (simp add: p)
  from 1 2 3 4 5 show ?thesis by blast
qed

theorem prefer_shared_inbox_groups_witness:
  "extractInboxes test_shared_parameters ''https://example.com/inbox''
     = Some {''https://example.com/alice'', ''https://example.com/app''}
   \<and> extractInboxes test_shared_parameters ''https://example.org/group/inbox''
     = Some {''https://example.org/group''}
   \<and> extractInboxes test_shared_parameters ''https://example.net/inbox''
     = Some {''https://example.net/service''}
   \<and> extractInboxes test_shared_parameters ''https://example.com/alice/inbox'' = None
   \<and> extractInboxes test_shared_parameters ''https://example.com/app/inbox'' = None
   \<and> href (actor_inbox test_alice) \<noteq> href (actor_inbox test_app)"
proof -
  have ps: "preferSharedInbox test_shared_parameters" "excludeBaseUris test_shared_parameters = []"
    "recipients test_shared_parameters = test_recipients"
    by (simp_all add: test_shared_parameters_def)
  note T = prefer_shared_inbox_groups [OF ps(1), unfolded ps(2,3) kept_recipients_no_exclusion]
  let ?shared = "example_url ''https://example.com'' ''/inbox''"
  have mem: "test_alice \<in> set test_recipients" "test_app \<in> set test_recipients"
    "test_group \<in> set test_recipients"
    and sh: "sharedInbox test_alice = Some ?shared" "sharedInbox test_app = Some ?shared"
    "sharedInbox test_group = None"
    by (simp_all add: test_recipients_def test_alice_def test_app_def test_group_def)
  have "\<exists>ids. extractInboxes test_shared_parameters (href ?shared) = Some ids
      \<and> href (actor_id test_alice) \<in> ids"
    using T mem(1) sh(1) by blast
  then obtain ids where ids: "extractInboxes test_shared_parameters (href ?shared) = Some ids"
    "href (actor_id test_alice) \<in> ids" by blast
  have app: "href (actor_id test_app) \<in> ids" using T mem(2) sh(2) ids(1) by blast
  have "ids = {''https://example.com/alice'', ''https://example.com/app''}"
    using ids(1) by (simp add: example_url_def test_shared_entries)
  with ids(1) have shared: "extractInboxes test_shared_parameters (href ?shared)
      = Some {''https://example.com/alice'', ''https://example.com/app''}"
    by simp
  have "\<exists>ids. extractInboxes test_shared_parameters (href (actor_inbox test_group)) = Some ids
      \<and> href (actor_id test_group) \<in> ids"
    using T mem(3) sh(3) by blast
  then have personal: "extractInboxes test_shared_parameters (href (actor_inbox test_group))
      = Some {''https://example.org/group''}"
    by (simp add: test_group_def example_url_def test_shared_entries)
  have differ: "href (actor_inbox test_alice) \<noteq> href (actor_inbox test_app)"
    by (simp add: test_alice_def test_app_def example_url_def)
  from shared personal differ show ?thesis
    by (simp add: test_shared_entries test_group_def example_url_def)
qed

text \<open>
  C3. When the activity has no \<open>actor\<close> property, \<open>sendActivity\<close> fails with a
  \<open>TypeError\<close> whose message is ``The activity to send must have at least one actor
  property.'', and it has issued no request: the list of the requests issued is the one
  it started from.
\<close>

theorem sendActivity_requires_actor:
  "actorIds (activity ps) = [] \<longrightarrow>
     fst (sendActivity env ps issued)
       = Inl (TypeError ''The activity to send must have at least one actor property.'')
     \<and> is_TypeError (fst (sendActivity env ps issued))
     \<and> snd (sendActivity env ps issued) = issued"
  by (simp add: sendActivity_no_actor)

theorem sendActivity_requires_actor_witness:
  "fst (sendActivity test_environment (test_send_parameters test_empty_activity) [])
     = Inl (TypeError ''The activity to send must have at least one actor property.'')
   \<and> snd (sendActivity test_environment (test_send_parameters test_empty_activity) []) = []"
proof -
  have "actorIds (activity (test_send_parameters test_empty_activity)) = []"
    by (simp add: test_send_parameters_def test_empty_activity_def)
  with sendActivity_requires_actor
    [of "test_send_parameters test_empty_activity" test_environment "[]"]
  show ?thesis by blast
qed

text \<open>
  C4. When the activity has an actor and the inbox answers with a status outside
  200..299, \<open>sendActivity\<close> fails with an error whose message is made of the
  activity's identifier, the URL of the inbox, the status code, the status text and the
  text of the response's body, unchanged, after one request. For status 500 with text
  ``Internal Server Error'' and body ``something went wrong'' the message is
  ``Failed to send activity \<open>id\<close> to \<open>inbox\<close> (500 Internal Server Error):'', a line
  feed, ``something went wrong''.
\<close>

theorem sendActivity_failure_message:
  "actorIds (activity ps) \<noteq> []
   \<and> \<not> (200 \<le> status (fetch env (signed_request env ps))
        \<and> status (fetch env (signed_request env ps)) < 300) \<longrightarrow>
     fst (sendActivity env ps issued)
       = Inl (Error (''Failed to send activity '' @ activity_id_text (activity ps)
            @ '' to '' @ href (inbox ps)
            @ '' ('' @ string_of_nat (status (fetch env (signed_request env ps)))
            @ '' '' @ statusText (fetch env (signed_request env ps)) @ ''):''
            @ [CHR 0x0A] @ response_text (fetch env (signed_request env ps))))
     \<and> snd (sendActivity env ps issued) = issued @ [signed_request env ps]
     \<and> (\<forall>i. activity_id (activity ps) = Some i \<longrightarrow> activity_id_text (activity ps) = href i)
     \<and> (\<forall>i. activity_id (activity ps) = Some i
            \<and> status (fetch env (signed_request env ps)) = 500
            \<and> statusText (fetch env (signed_request env ps)) = ''Internal Server Error''
            \<and> response_text (fetch env (signed_request env ps)) = ''something went wrong'' \<longrightarrow>
          fst (sendActivity env ps issued)
            = Inl (Error (''Failed to send activity '' @ href i @ '' to '' @ href (inbox ps)
                 @ '' (500 Internal Server Error):'' @ [CHR 0x0A] @ ''something went wrong'')))"
proof (intro impI, elim conjE)
  assume a: "actorIds (activity ps) \<noteq> []"
    and s: "\<not> (200 \<le> status (fetch env (signed_request env ps))
        \<and> status (fetch env (signed_request env ps)) < 300)"
  let ?r = "fetch env (signed_request env ps)"
  have e: "sendActivity env ps issued
      = (Inl (Error (failure_message (activity ps) (inbox ps) ?r)), issued @ [signed_request env ps])"
    using s by (simp only: sendActivity_sent [OF a] if_False)
  have 1: "fst (sendActivity env ps issued)
       = Inl (Error (''Failed to send activity '' @ activity_id_text (activity ps)
            @ '' to '' @ href (inbox ps)
            @ '' ('' @ string_of_nat (status ?r) @ '' '' @ statusText ?r @ ''):''
            @ [CHR 0x0A] @ response_text ?r))"
    by (simp add: e failure_message_def)
  have 2: "snd (sendActivity env ps issued) = issued @ [signed_request env ps]"
    by (simp add: e)
  have 3: "\<forall>i. activity_id (activity ps) = Some i \<longrightarrow> activity_id_text (activity ps) = href i"
    by (simp add: activity_id_text_def)
  have 4: "\<forall>i. activity_id (activity ps) = Some i
            \<and> status ?r = 500 \<and> statusText ?r = ''Internal Server Error''
            \<and> response_text ?r = ''something went wrong'' \<longrightarrow>
          fst (sendActivity env ps issued)
            = Inl (Error (''Failed to send activity '' @ href i @ '' to '' @ href (inbox ps)
                 @ '' (500 Internal Server Error):'' @ [CHR 0x0A] @ ''something went wrong''))"
    by (simp add: e failure_message_def activity_id_text_def string_of_nat_500)
  from 1 2 3 4 show "fst (sendActivity env ps issued)
       = Inl (Error (''Failed to send activity '' @ activity_id_text (activity ps)
            @ '' to '' @ href (inbox ps)
            @ '' ('' @ string_of_nat (status ?r) @ '' '' @ statusText ?r @ ''):''
            @ [CHR 0x0A] @ response_text ?r))
     \<and> snd (sendActivity env ps issued) = issued @ [signed_request env ps]
     \<and> (\<forall>i. activity_id (activity ps) = Some i \<longrightarrow> activity_id_text (activity ps) = href i)
     \<and> (\<forall>i. activity_id (activity ps) = Some i
            \<and> status ?r = 500 \<and> statusText ?r = ''Internal Server Error''
            \<and> response_text ?r = ''something went wrong'' \<longrightarrow>
          fst (sendActivity env ps issued)
            = Inl (Error (''Failed to send activity '' @ href i @ '' to '' @ href (inbox ps)
                 @ '' (500 Internal Server Error):'' @ [CHR 0x0A] @ ''something went wrong'')))"
    by blast
qed

theorem sendActivity_failure_message_witness:
  "fst (sendActivity test_environment (test_send_parameters test_activity) [])
     = Inl (Error (''Failed to send activity https://example.com/activity to ''
          @ ''https://example.com/inbox2 (500 Internal Server Error):'' @ [CHR 0x0A]
          @ ''something went wrong''))
   \<and> length (snd (sendActivity test_environment (test_send_parameters test_activity) [])) = 1"
proof -
  let ?ps = "test_send_parameters test_activity"
  let ?i = "example_url ''https://example.com'' ''/activity''"
  note T = sendActivity_failure_message [of ?ps test_environment "[]"]
  have h: "actorIds (activity ?ps) \<noteq> []"
    "\<not> (200 \<le> status (fetch test_environment (signed_request test_environment ?ps))
        \<and> status (fetch test_environment (signed_request test_environment ?ps)) < 300)"
    "activity_id (activity ?ps) = Some ?i"
    "status (fetch test_environment (signed_request test_environment ?ps)) = 500"
    "statusText (fetch test_environment (signed_request test_environment ?ps)) = ''Internal Server Error''"
    "response_text (fetch test_environment (signed_request test_environment ?ps)) = ''something went wrong''"
    by (simp_all add: test_response) (simp_all add: test_send_parameters_def test_activity_def)
  have 1: "fst (sendActivity test_environment ?ps [])
            = Inl (Error (''Failed to send activity '' @ href ?i @ '' to '' @ href (inbox ?ps)
                 @ '' (500 Internal Server Error):'' @ [CHR 0x0A] @ ''something went wrong''))"
    using T h by blast
  have 2: "snd (sendActivity test_environment ?ps []) = [] @ [signed_request test_environment ?ps]"
    using T h(1,2) by blast
  from 1 2 show ?thesis
    by (simp add: test_send_parameters_def example_url_def)
qed

end
